theory Spec2Isabelle
  imports Complex_Main
begin

section \<open>JavaScript numbers\<close>

text \<open>
  A JavaScript number is NaN, an infinity or a finite value; a finite value is a double,
  which is a real number. The comparison operators are exact and follow the language: every
  comparison with NaN is false. An arithmetic operation rounds its exact result to a
  double. That rounding belongs to the platform's arithmetic, not to the script: it is the
  parameter \<open>fl\<close> of the operations that round. Results beyond the range of doubles, which
  would be infinities, are not modelled: the script's sums and quotients stay far below.
\<close>

datatype jsnum = NaN | NegInf | Fin real | PosInf

fun isNaN :: "jsnum \<Rightarrow> bool" where
  "isNaN NaN = True"
| "isNaN _ = False"

text \<open>\<open>a < b\<close>\<close>

fun js_lt :: "jsnum \<Rightarrow> jsnum \<Rightarrow> bool" where
  "js_lt NaN _ = False"
| "js_lt _ NaN = False"
| "js_lt PosInf _ = False"
| "js_lt _ NegInf = False"
| "js_lt NegInf _ = True"
| "js_lt (Fin a) (Fin b) = (a < b)"
| "js_lt (Fin a) PosInf = True"

text \<open>\<open>a > b\<close>\<close>

definition js_gt :: "jsnum \<Rightarrow> jsnum \<Rightarrow> bool" where
  "js_gt a b = js_lt b a"

text \<open>\<open>a <= b\<close>: false when either side is NaN, otherwise the negation of \<open>b < a\<close>.\<close>

definition js_le :: "jsnum \<Rightarrow> jsnum \<Rightarrow> bool" where
  "js_le a b = (\<not> isNaN a \<and> \<not> isNaN b \<and> \<not> js_lt b a)"

text \<open>\<open>a + b\<close> on numbers: the exact sum of two finite values, rounded.\<close>

fun js_add :: "(real \<Rightarrow> real) \<Rightarrow> jsnum \<Rightarrow> jsnum \<Rightarrow> jsnum" where
  "js_add fl NaN _ = NaN"
| "js_add fl _ NaN = NaN"
| "js_add fl PosInf NegInf = NaN"
| "js_add fl NegInf PosInf = NaN"
| "js_add fl PosInf _ = PosInf"
| "js_add fl _ PosInf = PosInf"
| "js_add fl NegInf _ = NegInf"
| "js_add fl _ NegInf = NegInf"
| "js_add fl (Fin a) (Fin b) = Fin (fl (a + b))"

text \<open>
  \<open>a / b\<close> on numbers: the exact quotient of two finite values, rounded. Zero divided by
  zero is NaN and a non-zero finite value divided by zero is an infinity (the sign is that
  of the dividend: the model has no negative zero).
\<close>

fun js_div :: "(real \<Rightarrow> real) \<Rightarrow> jsnum \<Rightarrow> jsnum \<Rightarrow> jsnum" where
  "js_div fl NaN _ = NaN"
| "js_div fl _ NaN = NaN"
| "js_div fl (Fin a) (Fin b) =
     (if b = 0 then (if a = 0 then NaN else if 0 < a then PosInf else NegInf)
      else Fin (fl (a / b)))"
| "js_div fl (Fin a) _ = Fin 0"
| "js_div fl PosInf (Fin b) = (if 0 \<le> b then PosInf else NegInf)"
| "js_div fl NegInf (Fin b) = (if 0 \<le> b then NegInf else PosInf)"
| "js_div fl _ _ = NaN"

text \<open>
  \<open>x.toFixed(2)\<close> on a finite value below \<open>10^21\<close> in magnitude: the integer \<open>n\<close> with
  \<open>n / 100\<close> closest to \<open>|x|\<close>, the larger one on a tie, with the sign of \<open>x\<close>. The method
  works on the exact value of the double \<open>x\<close> and yields decimal digits: nothing is rounded
  to a double here.
\<close>

definition toFixed2 :: "real \<Rightarrow> real" where
  "toFixed2 x =
     (if x < 0 then - (of_int \<lfloor>(- x) * 100 + 1 / 2\<rfloor> / 100)
      else of_int \<lfloor>x * 100 + 1 / 2\<rfloor> / 100)"

text \<open>
  \<open>+(v).toFixed(2)\<close>: the two-decimal string read back as a number, that is, rounded to
  a double. NaN and the infinities print as their names and read back as themselves; from
  \<open>10^21\<close> on \<open>toFixed\<close> prints the number itself.
\<close>

fun plus_toFixed2 :: "(real \<Rightarrow> real) \<Rightarrow> jsnum \<Rightarrow> jsnum" where
  "plus_toFixed2 fl (Fin x) = (if 10 ^ 21 \<le> \<bar>x\<bar> then Fin x else Fin (fl (toFixed2 x)))"
| "plus_toFixed2 fl v = v"

section \<open>Entries and the persisted logs\<close>

text \<open>
  The three entry shapes of \<open>script_Version2.js\<close>: \<open>{date, sleep, screen, exercise, rating}\<close>,
  \<open>{date, sleep, water, stress, condition}\<close> and \<open>{date, mood, triggers}\<close>. The field names
  carry a prefix because \<open>date\<close> and \<open>sleep\<close> occur in more than one shape.
\<close>

record focus_entry =
  f_date :: string
  f_sleep :: jsnum
  f_screen :: jsnum
  f_exercise :: jsnum
  f_rating :: jsnum

record skin_entry =
  s_date :: string
  s_sleep :: jsnum
  s_water :: jsnum
  s_stress :: jsnum
  s_condition :: string

record mood_entry =
  m_date :: string
  m_mood :: string
  m_triggers :: "string list"

text \<open>
  An element of a stored array: an object of one of the three shapes, or \<open>Other\<close>: any
  other JSON value, among them an object of one of the shapes with null in a numeric field.
\<close>

datatype entry = Focus focus_entry | Skin skin_entry | Mood mood_entry | Other

text \<open>
  What \<open>JSON.parse\<close> can return for a stored text: an array, or some other JSON value
  (null, a number, a string, a boolean, an object).
\<close>

datatype jsdata = Arr "entry list" | NonArr

text \<open>
  \<open>localStorage\<close> holds strings. \<open>JSON.parse\<close> and \<open>JSON.stringify\<close> are platform functions,
  not code of the script, so a stored string is modelled by how \<open>JSON.parse\<close> reads it:
  \<open>Json d\<close> is a JSON text that \<open>JSON.parse\<close> reads as the value \<open>d\<close>, and \<open>Invalid s\<close>
  is a string \<open>s\<close> that is not JSON text, the empty string included.
\<close>

datatype stored = Invalid string | Json jsdata

type_synonym storage = "string \<rightharpoonup> stored"

datatype exn = SyntaxError | TypeError

definition LS_KEYS_FOCUS :: string where
  "LS_KEYS_FOCUS = ''shwt_focus_entries''"

definition LS_KEYS_SKIN :: string where
  "LS_KEYS_SKIN = ''shwt_skin_entries''"

definition LS_KEYS_MOOD :: string where
  "LS_KEYS_MOOD = ''shwt_mood_entries''"

text \<open>
  JSON has no text for NaN and the infinities: \<open>JSON.stringify\<close> writes null in their
  place. An entry with such a number reads back with null in that field, that is, as
  \<open>Other\<close>; an entry whose numbers are finite reads back as itself.
\<close>

fun finite_num :: "jsnum \<Rightarrow> bool" where
  "finite_num (Fin r) = True"
| "finite_num v = False"

fun entry_finite :: "entry \<Rightarrow> bool" where
  "entry_finite (Focus e) =
     (finite_num (f_sleep e) \<and> finite_num (f_screen e) \<and> finite_num (f_exercise e)
      \<and> finite_num (f_rating e))"
| "entry_finite (Skin e) =
     (finite_num (s_sleep e) \<and> finite_num (s_water e) \<and> finite_num (s_stress e))"
| "entry_finite (Mood e) = True"
| "entry_finite Other = True"

definition json_entry :: "entry \<Rightarrow> entry" where
  "json_entry x = (if entry_finite x then x else Other)"

fun json_value :: "jsdata \<Rightarrow> jsdata" where
  "json_value (Arr xs) = Arr (map json_entry xs)"
| "json_value NonArr = NonArr"

text \<open>\<open>JSON.parse(v)\<close> throws a SyntaxError on a string that is not JSON text.\<close>

fun JSON_parse :: "stored \<Rightarrow> exn + jsdata" where
  "JSON_parse (Invalid s) = Inl SyntaxError"
| "JSON_parse (Json d) = Inr d"

definition JSON_stringify :: "jsdata \<Rightarrow> stored" where
  "JSON_stringify d = Json (json_value d)"

text \<open>The condition \<open>v ? ... : ...\<close> on the result of \<open>getItem\<close>: null and the empty string are falsy.\<close>

fun truthy :: "stored option \<Rightarrow> bool" where
  "truthy None = False"
| "truthy (Some (Invalid s)) = (s \<noteq> [])"
| "truthy (Some (Json d)) = True"

text \<open>\<open>try { body } catch(e) { handler }\<close>\<close>

definition try_catch :: "exn + 'a \<Rightarrow> (exn \<Rightarrow> exn + 'a) \<Rightarrow> exn + 'a" where
  "try_catch body handler = (case body of Inl e \<Rightarrow> handler e | Inr x \<Rightarrow> Inr x)"

text \<open>
  \<open>lp(key)\<close>, lines 22 to 27:
  \<^verbatim>\<open>try { const v = localStorage.getItem(key); return v ? JSON.parse(v) : []; }
  catch(e){ return []; }\<close>
\<close>

definition lp :: "storage \<Rightarrow> string \<Rightarrow> exn + jsdata" where
  "lp ls key =
     try_catch
       (let v = ls key in
        if truthy v then (case v of Some t \<Rightarrow> JSON_parse t | None \<Rightarrow> Inr (Arr []))
        else Inr (Arr []))
       (\<lambda>e. Inr (Arr []))"

text \<open>\<open>lsSet(key, data)\<close>, lines 28 to 30.\<close>

definition lsSet :: "string \<Rightarrow> jsdata \<Rightarrow> storage \<Rightarrow> storage" where
  "lsSet key data ls = ls(key \<mapsto> JSON_stringify data)"

text \<open>\<open>entries.push(x)\<close>: a value that is not an array has no \<open>push\<close>, the call throws.\<close>

fun push :: "jsdata \<Rightarrow> entry \<Rightarrow> exn + jsdata" where
  "push (Arr xs) x = Inr (Arr (xs @ [x]))"
| "push NonArr x = Inl TypeError"

text \<open>
  The read, push, write sequence of the three submit handlers (lines 105 to 110, 139 to
  144, 167 to 169):
  \<^verbatim>\<open>const entries = lp(KEY); entries.push(entry); lsSet(KEY, entries);\<close>
\<close>

definition append_entry :: "string \<Rightarrow> entry \<Rightarrow> storage \<Rightarrow> exn + storage" where
  "append_entry key x ls =
     (case lp ls key of
        Inl e \<Rightarrow> Inl e
      | Inr entries \<Rightarrow>
          (case push entries x of
             Inl e \<Rightarrow> Inl e
           | Inr entries' \<Rightarrow> Inr (lsSet key entries' ls)))"

text \<open>\<open>localStorage.removeItem(key)\<close>\<close>

definition removeItem :: "string \<Rightarrow> storage \<Rightarrow> storage" where
  "removeItem key ls = ls(key := None)"

section \<open>The page: storage and the error elements\<close>

text \<open>
  The state the handlers act on: \<open>localStorage\<close>, and the \<open>textContent\<close> of the page's
  elements by id (the error elements are the only ones the validation writes to).
\<close>

record page =
  localStorage :: storage
  textContent :: "string \<rightharpoonup> string"

text \<open>How a handler ends: it returns, or an exception leaves it.\<close>

datatype completion = Normal | Throw exn

text \<open>
  \<open>showError(id, msg)\<close>, lines 76 to 79: \<open>if(el) el.textContent = msg || ''\<close>. Nothing is
  written when the page has no element \<open>id\<close>. For a string, \<open>msg || ''\<close> is \<open>msg\<close>.
\<close>

definition showError :: "string \<Rightarrow> string \<Rightarrow> page \<Rightarrow> page" where
  "showError ident msg p =
     (case textContent p ident of
        None \<Rightarrow> p
      | Some el \<Rightarrow> p\<lparr>textContent := (textContent p)(ident \<mapsto> (if msg = [] then [] else msg))\<rparr>)"

text \<open>
  One validation line of a submit handler:
  \<^verbatim>\<open>if(COND){ showError(id, msg); ok=false } else showError(id,'');\<close>
  on the pair of the flag \<open>ok\<close> and the page.
\<close>

definition check :: "bool \<Rightarrow> string \<Rightarrow> string \<Rightarrow> bool \<times> page \<Rightarrow> bool \<times> page" where
  "check cond ident msg st =
     (if cond then (False, showError ident msg (snd st))
      else (fst st, showError ident [] (snd st)))"

text \<open>
  The values the handlers read from the form. \<open>parseFloat\<close> and \<open>parseInt\<close> are platform
  functions; the numeric fields are their results on the inputs' text (\<open>NaN\<close> when the
  text does not start with a number). The en dash of the source's messages
  (\<open>Enter 0-24\<close>) is written as an ASCII hyphen.
\<close>

record focus_form =
  focus_sleep :: jsnum
  focus_screen :: jsnum
  focus_exercise :: jsnum
  focus_rating :: jsnum

record skin_form =
  skin_sleep :: jsnum
  skin_water :: jsnum
  skin_stress :: jsnum
  skin_condition :: string

record mood_form =
  mood_date :: string
  mood_value :: string
  mood_triggers :: "string list"

text \<open>
  \<open>onFocusSubmit\<close>, lines 88 to 118. \<open>today\<close> is the result of \<open>todayDate()\<close>. The form
  reset and the chart and tip updates that follow the write are rendering and are not
  part of the state.
\<close>

definition onFocusSubmit :: "string \<Rightarrow> focus_form \<Rightarrow> page \<Rightarrow> completion \<times> page" where
  "onFocusSubmit today form p =
     (let sleep = focus_sleep form;
          screen = focus_screen form;
          exercise = focus_exercise form;
          rating = focus_rating form;
          st = (True, p);
          st = check (isNaN sleep \<or> js_lt sleep (Fin 0) \<or> js_gt sleep (Fin 24))
                 ''focus-sleep-error'' ''Enter 0-24'' st;
          st = check (isNaN screen \<or> js_lt screen (Fin 0) \<or> js_gt screen (Fin 24))
                 ''focus-screen-error'' ''Enter 0-24'' st;
          st = check (isNaN exercise \<or> js_lt exercise (Fin 0) \<or> js_gt exercise (Fin 600))
                 ''focus-exercise-error'' ''Enter 0-600'' st;
          st = check (isNaN rating \<or> js_lt rating (Fin 1) \<or> js_gt rating (Fin 10))
                 ''focus-rating-error'' ''Enter 1-10'' st
      in if \<not> fst st then (Normal, snd st)
         else
           (case append_entry LS_KEYS_FOCUS
                   (Focus \<lparr>f_date = today, f_sleep = sleep, f_screen = screen,
                           f_exercise = exercise, f_rating = rating\<rparr>)
                   (localStorage (snd st)) of
              Inl e \<Rightarrow> (Throw e, snd st)
            | Inr ls \<Rightarrow> (Normal, (snd st)\<lparr>localStorage := ls\<rparr>)))"

text \<open>\<open>onSkinSubmit\<close>, lines 124 to 150. \<open>!condition\<close> holds for the empty string only.\<close>

definition onSkinSubmit :: "string \<Rightarrow> skin_form \<Rightarrow> page \<Rightarrow> completion \<times> page" where
  "onSkinSubmit today form p =
     (let sleep = skin_sleep form;
          water = skin_water form;
          stress = skin_stress form;
          condition = skin_condition form;
          st = (True, p);
          st = check (isNaN sleep \<or> js_lt sleep (Fin 0) \<or> js_gt sleep (Fin 24))
                 ''skin-sleep-error'' ''Enter 0-24'' st;
          st = check (isNaN water \<or> js_lt water (Fin 0) \<or> js_gt water (Fin 50))
                 ''skin-water-error'' ''Enter 0-50'' st;
          st = check (isNaN stress \<or> js_lt stress (Fin 1) \<or> js_gt stress (Fin 10))
                 ''skin-stress-error'' ''Enter 1-10'' st;
          st = check (condition = []) ''skin-condition-error'' ''Select a condition'' st
      in if \<not> fst st then (Normal, snd st)
         else
           (case append_entry LS_KEYS_SKIN
                   (Skin \<lparr>s_date = today, s_sleep = sleep, s_water = water,
                          s_stress = stress, s_condition = condition\<rparr>)
                   (localStorage (snd st)) of
              Inl e \<Rightarrow> (Throw e, snd st)
            | Inr ls \<Rightarrow> (Normal, (snd st)\<lparr>localStorage := ls\<rparr>)))"

text \<open>\<open>onMoodSubmit\<close>, lines 155 to 176.\<close>

definition onMoodSubmit :: "mood_form \<Rightarrow> page \<Rightarrow> completion \<times> page" where
  "onMoodSubmit form p =
     (let date = mood_date form;
          mood = mood_value form;
          triggers = mood_triggers form;
          st = (True, p);
          st = check (date = []) ''mood-date-error'' ''Select a date'' st;
          st = check (mood = []) ''mood-value-error'' ''Select a mood'' st
      in if \<not> fst st then (Normal, snd st)
         else
           (case append_entry LS_KEYS_MOOD
                   (Mood \<lparr>m_date = date, m_mood = mood, m_triggers = triggers\<rparr>)
                   (localStorage (snd st)) of
              Inl e \<Rightarrow> (Throw e, snd st)
            | Inr ls \<Rightarrow> (Normal, (snd st)\<lparr>localStorage := ls\<rparr>)))"

text \<open>
  The clear functions, lines 179 to 199. \<open>confirmed\<close> is the answer of the \<open>confirm\<close>
  dialog.
\<close>

definition clearFocusData :: "bool \<Rightarrow> page \<Rightarrow> page" where
  "clearFocusData confirmed p =
     (if confirmed then p\<lparr>localStorage := removeItem LS_KEYS_FOCUS (localStorage p)\<rparr> else p)"

definition clearSkinData :: "bool \<Rightarrow> page \<Rightarrow> page" where
  "clearSkinData confirmed p =
     (if confirmed then p\<lparr>localStorage := removeItem LS_KEYS_SKIN (localStorage p)\<rparr> else p)"

definition clearMoodData :: "bool \<Rightarrow> page \<Rightarrow> page" where
  "clearMoodData confirmed p =
     (if confirmed then p\<lparr>localStorage := removeItem LS_KEYS_MOOD (localStorage p)\<rparr> else p)"

text \<open>
  The object \<open>exportData\<close> builds, lines 203 to 207:
  \<open>{focus: lp(FOCUS), skin: lp(SKIN), mood: lp(MOOD)}\<close>.
\<close>

record export =
  focus :: jsdata
  skin :: jsdata
  mood :: jsdata

definition exportData :: "storage \<Rightarrow> exn + export" where
  "exportData ls =
     (case lp ls LS_KEYS_FOCUS of
        Inl e \<Rightarrow> Inl e
      | Inr f \<Rightarrow>
          (case lp ls LS_KEYS_SKIN of
             Inl e \<Rightarrow> Inl e
           | Inr s \<Rightarrow>
               (case lp ls LS_KEYS_MOOD of
                  Inl e \<Rightarrow> Inl e
                | Inr m \<Rightarrow> Inr \<lparr>focus = f, skin = s, mood = m\<rparr>)))"

section \<open>The summary: focus by sleep range\<close>

text \<open>
  The buckets of \<open>updateSummary\<close>, lines 403 to 408. The fields are \<open>label\<close>, \<open>min\<close>,
  \<open>max\<close>, \<open>sum\<close> and \<open>n\<close> in the source; \<open>n\<close> only ever counts up from 0.
\<close>

record bucket =
  b_label :: string
  b_min :: jsnum
  b_max :: jsnum
  b_sum :: jsnum
  b_n :: nat

definition buckets :: "bucket list" where
  "buckets =
     [\<lparr>b_label = ''<=6'', b_min = Fin (- 1), b_max = Fin 6, b_sum = Fin 0, b_n = 0\<rparr>,
      \<lparr>b_label = ''6-7'', b_min = Fin 6, b_max = Fin 7, b_sum = Fin 0, b_n = 0\<rparr>,
      \<lparr>b_label = ''7-9'', b_min = Fin 7, b_max = Fin 9, b_sum = Fin 0, b_n = 0\<rparr>,
      \<lparr>b_label = ''9+'', b_min = Fin 9, b_max = Fin 100, b_sum = Fin 0, b_n = 0\<rparr>]"

text \<open>The test of line 411: \<open>e.sleep > b.min && e.sleep <= b.max\<close>.\<close>

definition in_bucket :: "focus_entry \<Rightarrow> bucket \<Rightarrow> bool" where
  "in_bucket e b = (js_gt (f_sleep e) (b_min b) \<and> js_le (f_sleep e) (b_max b))"

text \<open>Line 411: \<open>if(...){ b.sum += e.rating; b.n += 1; }\<close>\<close>

definition bucket_add :: "(real \<Rightarrow> real) \<Rightarrow> focus_entry \<Rightarrow> bucket \<Rightarrow> bucket" where
  "bucket_add fl e b =
     (if in_bucket e b then b\<lparr>b_sum := js_add fl (b_sum b) (f_rating e), b_n := b_n b + 1\<rparr>
      else b)"

text \<open>Lines 409 to 413: for every entry, for every bucket.\<close>

definition sleep_buckets :: "(real \<Rightarrow> real) \<Rightarrow> focus_entry list \<Rightarrow> bucket list" where
  "sleep_buckets fl focusEntries =
     foldl (\<lambda>bs e. map (bucket_add fl e) bs) buckets focusEntries"

text \<open>
  Line 415, the data of the chart:
  \<open>buckets.map(b => b.n ? +(b.sum / b.n).toFixed(2) : 0)\<close>.
\<close>

definition summarySleep_data :: "(real \<Rightarrow> real) \<Rightarrow> focus_entry list \<Rightarrow> jsnum list" where
  "summarySleep_data fl focusEntries =
     map (\<lambda>b. if b_n b \<noteq> 0
              then plus_toFixed2 fl (js_div fl (b_sum b) (Fin (real (b_n b))))
              else Fin 0)
       (sleep_buckets fl focusEntries)"

section \<open>The summary: skin distribution and insight\<close>










section \<open>The mood chart\<close>

text \<open>
  \<open>counts\<close> of line 378: one row of seven zeros per mood, in the order of the object's
  properties.
\<close>

definition mood_counts_init :: "(string \<times> nat list) list" where
  "mood_counts_init =
     [(''happy'', replicate 7 0), (''calm'', replicate 7 0),
      (''stressed'', replicate 7 0), (''tired'', replicate 7 0)]"

text \<open>
  \<open>row[weekday] += 1\<close>. With an index that is NaN the write goes to the property named
  \<open>NaN\<close> of the array and no element changes. The rows have seven elements and the index
  is below seven (lemmas \<open>length_row_after\<close> and \<open>weekday_below_7\<close>), so the write
  never falls past the end of the array, where a list update and an array write differ.
\<close>

fun bump :: "nat option \<Rightarrow> nat list \<Rightarrow> nat list" where
  "bump None row = row"
| "bump (Some i) row = row[i := row ! i + 1]"

text \<open>
  The body of the loop, lines 381 to 383. \<open>getDay\<close> stands for
  \<open>new Date(e.date).getDay()\<close>, a platform function: \<open>Some g\<close> with \<open>g\<close> from 0 (Sunday) to 6
  for a date string that parses, \<open>None\<close> for the NaN of an invalid date. Reading an index
  of \<open>counts[e.mood]\<close> when that is undefined throws; the guard of line 383 comes first.
\<close>

definition mood_chart_step ::
  "(string \<Rightarrow> nat option) \<Rightarrow> (string \<times> nat list) list \<Rightarrow> mood_entry
     \<Rightarrow> exn + (string \<times> nat list) list" where
  "mood_chart_step getDay counts e =
     (let d = getDay (m_date e);
          weekday = map_option (\<lambda>g. (g + 6) mod 7) d
      in if m_mood e \<noteq> [] \<and> map_of counts (m_mood e) \<noteq> None then
           (case map_of counts (m_mood e) of
              None \<Rightarrow> Inl TypeError
            | Some row \<Rightarrow>
                Inr (map (\<lambda>(k, r). if k = m_mood e then (k, bump weekday r) else (k, r)) counts))
         else Inr counts)"

text \<open>\<open>entries.forEach\<close>: the loop stops at the first exception.\<close>

fun mood_chart_loop ::
  "(string \<Rightarrow> nat option) \<Rightarrow> (string \<times> nat list) list \<Rightarrow> mood_entry list
     \<Rightarrow> exn + (string \<times> nat list) list" where
  "mood_chart_loop getDay counts [] = Inr counts"
| "mood_chart_loop getDay counts (e # es) =
     (case mood_chart_step getDay counts e of
        Inl x \<Rightarrow> Inl x
      | Inr counts' \<Rightarrow> mood_chart_loop getDay counts' es)"

text \<open>\<open>updateMoodCharts\<close>, lines 374 to 391: the four data rows handed to the chart.\<close>

definition updateMoodCharts ::
  "(string \<Rightarrow> nat option) \<Rightarrow> mood_entry list \<Rightarrow> exn + (string \<times> nat list) list" where
  "updateMoodCharts getDay entries = mood_chart_loop getDay mood_counts_init entries"

section \<open>Mood tips\<close>

text \<open>
  The suggestions of \<open>updateMoodTips\<close>, lines 525 to 533, by what they say:
  \<open>Coping\<close> is \<open>You have recorded stress often. Try short breathing breaks, ...\<close>,
  \<open>Tiredness\<close> is \<open>Feeling tired regularly? Look at sleep and screen habits ...\<close> and
  \<open>Reinforcement\<close> is \<open>Nice - you record happy moods often. ...\<close>.
\<close>

datatype mood_tip = Coping | Tiredness | Reinforcement

text \<open>What the tips element shows: the fixed text for an empty log, or the list.\<close>

datatype mood_tips = NoMoodData | MoodTips "mood_tip list"

text \<open>\<open>x || 0\<close> on a count that may be undefined.\<close>

fun or0 :: "nat option \<Rightarrow> nat" where
  "or0 None = 0"
| "or0 (Some c) = c"

text \<open>
  Line 523: \<open>entries.reduce((acc,e)=>{ acc[e.mood]=(acc[e.mood]||0)+1; return acc },{})\<close>.
  The tips read the keys \<open>stressed\<close>, \<open>happy\<close>, \<open>calm\<close> and \<open>tired\<close> only.
\<close>

definition moodCounts :: "mood_entry list \<Rightarrow> (string \<rightharpoonup> nat)" where
  "moodCounts entries =
     foldl (\<lambda>acc e. acc(m_mood e \<mapsto> or0 (acc (m_mood e)) + 1)) Map.empty entries"

text \<open>\<open>updateMoodTips\<close>, lines 515 to 536.\<close>

definition updateMoodTips :: "mood_entry list \<Rightarrow> mood_tips" where
  "updateMoodTips entries =
     (if length entries = 0 then NoMoodData
      else
        let counts = moodCounts entries;
            suggestions = [];
            suggestions =
              (if or0 (counts ''stressed'') > or0 (counts ''happy'')
               then suggestions @ [Coping] else suggestions);
            suggestions =
              (if or0 (counts ''tired'') > 0
               then suggestions @ [Tiredness] else suggestions);
            suggestions =
              (if or0 (counts ''happy'')
                    \<ge> max (or0 (counts ''calm''))
                          (max (or0 (counts ''stressed'')) (or0 (counts ''tired'')))
               then suggestions @ [Reinforcement] else suggestions)
        in MoodTips suggestions)"

section \<open>Vocabulary of the specification\<close>

text \<open>
  The closed interval of a numeric field, in the specification's words: the value is a
  finite number between the two bounds. NaN, the result of parsing text that is not a
  number, is in no interval.
\<close>

definition in_bounds :: "real \<Rightarrow> real \<Rightarrow> jsnum \<Rightarrow> bool" where
  "in_bounds lo hi v = (case v of Fin r \<Rightarrow> lo \<le> r \<and> r \<le> hi | _ \<Rightarrow> False)"

text \<open>A finite number with no fractional part.\<close>

definition is_integer :: "jsnum \<Rightarrow> bool" where
  "is_integer v = (case v of Fin r \<Rightarrow> of_int \<lfloor>r\<rfloor> = r | _ \<Rightarrow> False)"

text \<open>
  What \<open>parseInt(text, 10)\<close> can return: NaN, or a whole number (an infinity when the
  digits exceed the range of a double).
\<close>

definition parseInt_result :: "jsnum \<Rightarrow> bool" where
  "parseInt_result v = (case v of Fin r \<Rightarrow> of_int \<lfloor>r\<rfloor> = r | _ \<Rightarrow> True)"

text \<open>
  The element \<open>ident\<close>, when the page has it, shows the text \<open>txt\<close>; and the message a
  field is expected to show: none (the empty string) when the field is valid.
\<close>

definition shows_text :: "page \<Rightarrow> string \<Rightarrow> string \<Rightarrow> bool" where
  "shows_text p ident txt = (case textContent p ident of None \<Rightarrow> True | Some t \<Rightarrow> t = txt)"

definition expected_text :: "bool \<Rightarrow> string \<Rightarrow> string" where
  "expected_text valid msg = (if valid then [] else msg)"

text \<open>
  Feeding an array back through repeated appends, one entry after the other, stopping at
  the first exception.
\<close>

fun replay :: "string \<Rightarrow> entry list \<Rightarrow> storage \<Rightarrow> exn + storage" where
  "replay key [] ls = Inr ls"
| "replay key (x # xs) ls =
     (case append_entry key x ls of
        Inl e \<Rightarrow> Inl e
      | Inr ls' \<Rightarrow> replay key xs ls')"

text \<open>The value of a finite number (0 for the others, which the statements exclude).\<close>

fun fin_val :: "jsnum \<Rightarrow> real" where
  "fin_val (Fin r) = r"
| "fin_val v = 0"

text \<open>The entries of a log that the test of line 411 puts in the bucket number \<open>i\<close>.\<close>

definition bucket_members :: "nat \<Rightarrow> focus_entry list \<Rightarrow> focus_entry list" where
  "bucket_members i es = filter (\<lambda>e. in_bucket e (buckets ! i)) es"

text \<open>The mean rating of a list of entries: the exact quotient, not rounded.\<close>

definition mean_rating :: "focus_entry list \<Rightarrow> real" where
  "mean_rating es = (\<Sum>e\<leftarrow>es. fin_val (f_rating e)) / real (length es)"

text \<open>
  Two properties of rounding to the nearest double, which has 53 significant bits: a whole
  number up to \<open>2^53\<close> in magnitude is a double, so it is not changed; and from 1 up to
  16 the rounded value is within the relative error \<open>2^-53\<close> (the doubles from \<open>2^e\<close> up to
  \<open>2^(e+1)\<close> are \<open>2^(e-52)\<close> apart).
\<close>

definition double_rounding :: "(real \<Rightarrow> real) \<Rightarrow> bool" where
  "double_rounding fl =
     ((\<forall>k::int. \<bar>k\<bar> \<le> 2 ^ 53 \<longrightarrow> fl (of_int k) = of_int k)
      \<and> (\<forall>x. 1 \<le> x \<and> x < 16 \<longrightarrow> \<bar>fl x - x\<bar> \<le> x / 2 ^ 53))"

text \<open>
  The ratings of a log are whole numbers from 1 to 10, as the focus handler admits them.
\<close>

definition whole_ratings :: "focus_entry list \<Rightarrow> bool" where
  "whole_ratings es = list_all (\<lambda>e. in_bounds 1 10 (f_rating e) \<and> is_integer (f_rating e)) es"

text \<open>The number of entries of a mood log with the mood \<open>k\<close>.\<close>

definition mood_count :: "string \<Rightarrow> mood_entry list \<Rightarrow> nat" where
  "mood_count k es = length (filter (\<lambda>e. m_mood e = k) es)"

text \<open>The tips shown for a log include the tip \<open>t\<close>.\<close>

definition fires :: "mood_tip \<Rightarrow> mood_entry list \<Rightarrow> bool" where
  "fires t es = (case updateMoodTips es of NoMoodData \<Rightarrow> False | MoodTips ts \<Rightarrow> t \<in> set ts)"


text \<open>
  The weekday column of a mood entry, Monday being 0 and Sunday 6; \<open>None\<close> when the date
  does not parse.
\<close>

definition weekday_of :: "(string \<Rightarrow> nat option) \<Rightarrow> mood_entry \<Rightarrow> nat option" where
  "weekday_of getDay e = map_option (\<lambda>g. (g + 6) mod 7) (getDay (m_date e))"

text \<open>
  The histogram of a mood as the specification describes it: for each of the seven
  columns, the number of entries with that mood whose date falls on that weekday.
\<close>

definition weekday_tally :: "(string \<Rightarrow> nat option) \<Rightarrow> string \<Rightarrow> mood_entry list \<Rightarrow> nat list" where
  "weekday_tally getDay m es =
     map (\<lambda>j. length (filter (\<lambda>e. m_mood e = m \<and> weekday_of getDay e = Some j) es)) [0..<7]"

text \<open>What the loop of \<open>updateMoodCharts\<close> does to the row of the mood \<open>m\<close>.\<close>

definition row_after :: "(string \<Rightarrow> nat option) \<Rightarrow> string \<Rightarrow> nat list \<Rightarrow> mood_entry list \<Rightarrow> nat list" where
  "row_after getDay m r es =
     foldl (\<lambda>r e. if m_mood e = m then bump (weekday_of getDay e) r else r) r es"

section \<open>Bounds of the entries and reachable pages\<close>

text \<open>
  The bounds of the three entry shapes as the specification lists them: closed intervals
  for the numeric fields, whole numbers for the rating and the stress level, the three
  conditions, a date that is not empty and the four moods.
\<close>

definition focus_bounds :: "focus_entry \<Rightarrow> bool" where
  "focus_bounds e =
     (in_bounds 0 24 (f_sleep e) \<and> in_bounds 0 24 (f_screen e)
      \<and> in_bounds 0 600 (f_exercise e)
      \<and> in_bounds 1 10 (f_rating e) \<and> is_integer (f_rating e))"

definition skin_numeric_bounds :: "skin_entry \<Rightarrow> bool" where
  "skin_numeric_bounds e =
     (in_bounds 0 24 (s_sleep e) \<and> in_bounds 0 50 (s_water e)
      \<and> in_bounds 1 10 (s_stress e) \<and> is_integer (s_stress e))"

definition skin_bounds :: "skin_entry \<Rightarrow> bool" where
  "skin_bounds e =
     (skin_numeric_bounds e \<and> s_condition e \<in> {''clear'', ''dry'', ''irritated''})"

definition mood_bounds :: "mood_entry \<Rightarrow> bool" where
  "mood_bounds e =
     (m_date e \<noteq> [] \<and> m_mood e \<in> {''happy'', ''calm'', ''stressed'', ''tired''})"

text \<open>
  What the handlers check of the categorical fields: that a condition, a date and a mood
  are selected, that is, not empty.
\<close>

definition skin_admitted :: "skin_entry \<Rightarrow> bool" where
  "skin_admitted e = (skin_numeric_bounds e \<and> s_condition e \<noteq> [])"

definition mood_admitted :: "mood_entry \<Rightarrow> bool" where
  "mood_admitted e = (m_date e \<noteq> [] \<and> m_mood e \<noteq> [])"

fun is_focus :: "(focus_entry \<Rightarrow> bool) \<Rightarrow> entry \<Rightarrow> bool" where
  "is_focus P (Focus e) = P e"
| "is_focus P _ = False"

fun is_skin :: "(skin_entry \<Rightarrow> bool) \<Rightarrow> entry \<Rightarrow> bool" where
  "is_skin P (Skin e) = P e"
| "is_skin P _ = False"

fun is_mood :: "(mood_entry \<Rightarrow> bool) \<Rightarrow> entry \<Rightarrow> bool" where
  "is_mood P (Mood e) = P e"
| "is_mood P _ = False"

text \<open>The log under \<open>key\<close> reads as an array whose entries all satisfy \<open>P\<close>.\<close>

definition log_ok :: "(entry \<Rightarrow> bool) \<Rightarrow> storage \<Rightarrow> string \<Rightarrow> bool" where
  "log_ok P ls key = (case lp ls key of Inr (Arr es) \<Rightarrow> list_all P es | _ \<Rightarrow> False)"

text \<open>Every log holds entries of its category within the bounds the specification lists.\<close>

definition store_within_bounds :: "storage \<Rightarrow> bool" where
  "store_within_bounds ls =
     (log_ok (is_focus focus_bounds) ls LS_KEYS_FOCUS
      \<and> log_ok (is_skin skin_bounds) ls LS_KEYS_SKIN
      \<and> log_ok (is_mood mood_bounds) ls LS_KEYS_MOOD)"

text \<open>Every log holds entries of its category that pass the checks of its handler.\<close>

definition store_admitted :: "storage \<Rightarrow> bool" where
  "store_admitted ls =
     (log_ok (is_focus focus_bounds) ls LS_KEYS_FOCUS
      \<and> log_ok (is_skin skin_admitted) ls LS_KEYS_SKIN
      \<and> log_ok (is_mood mood_admitted) ls LS_KEYS_MOOD)"

text \<open>
  The pages the script can reach from an empty store: by submissions of any form and date
  (the rating and the stress level being results of \<open>parseInt\<close>), and by the clear buttons
  with any answer to the confirmation.
\<close>

inductive reachable :: "page \<Rightarrow> bool" where
  start: "reachable \<lparr>localStorage = Map.empty, textContent = t\<rparr>"
| focus_submit:
    "reachable p \<Longrightarrow> parseInt_result (focus_rating form)
       \<Longrightarrow> reachable (snd (onFocusSubmit today form p))"
| skin_submit:
    "reachable p \<Longrightarrow> parseInt_result (skin_stress form)
       \<Longrightarrow> reachable (snd (onSkinSubmit today form p))"
| mood_submit: "reachable p \<Longrightarrow> reachable (snd (onMoodSubmit form p))"
| focus_clear: "reachable p \<Longrightarrow> reachable (clearFocusData confirmed p)"
| skin_clear: "reachable p \<Longrightarrow> reachable (clearSkinData confirmed p)"
| mood_clear: "reachable p \<Longrightarrow> reachable (clearMoodData confirmed p)"

section \<open>Example inputs\<close>

definition example_page :: page where
  "example_page =
     \<lparr>localStorage = Map.empty,
      textContent =
        [''focus-sleep-error'' \<mapsto> [], ''focus-screen-error'' \<mapsto> [],
         ''focus-exercise-error'' \<mapsto> ''Enter 0-600'', ''focus-rating-error'' \<mapsto> [],
         ''skin-sleep-error'' \<mapsto> [], ''skin-water-error'' \<mapsto> [],
         ''skin-stress-error'' \<mapsto> [], ''skin-condition-error'' \<mapsto> [],
         ''mood-date-error'' \<mapsto> [], ''mood-value-error'' \<mapsto> []]\<rparr>"

definition example_focus :: focus_entry where
  "example_focus =
     \<lparr>f_date = ''2024-03-04'', f_sleep = Fin 8, f_screen = Fin 3, f_exercise = Fin 25,
      f_rating = Fin 8\<rparr>"

definition example_skin :: skin_entry where
  "example_skin =
     \<lparr>s_date = ''2024-03-04'', s_sleep = Fin 7, s_water = Fin 6, s_stress = Fin 4,
      s_condition = ''dry''\<rparr>"

definition example_mood :: mood_entry where
  "example_mood = \<lparr>m_date = ''2024-03-04'', m_mood = ''calm'', m_triggers = [''exams'']\<rparr>"

definition example_store :: storage where
  "example_store =
     [LS_KEYS_FOCUS \<mapsto> Json (Arr [Focus example_focus]),
      LS_KEYS_SKIN \<mapsto> Invalid ''[{'',
      LS_KEYS_MOOD \<mapsto> Json (Arr [Mood example_mood, Mood example_mood])]"

definition bad_focus_form :: focus_form where
  "bad_focus_form =
     \<lparr>focus_sleep = NaN, focus_screen = Fin 30, focus_exercise = Fin 20, focus_rating = Fin 5\<rparr>"

definition bad_skin_form :: skin_form where
  "bad_skin_form =
     \<lparr>skin_sleep = Fin 8, skin_water = Fin 60, skin_stress = Fin 0, skin_condition = ''''\<rparr>"

definition bad_mood_form :: mood_form where
  "bad_mood_form = \<lparr>mood_date = '''', mood_value = ''happy'', mood_triggers = []\<rparr>"

definition oily_skin_form :: skin_form where
  "oily_skin_form =
     \<lparr>skin_sleep = Fin 7, skin_water = Fin 6, skin_stress = Fin 4, skin_condition = ''oily''\<rparr>"

definition good_focus_form :: focus_form where
  "good_focus_form =
     \<lparr>focus_sleep = Fin 8, focus_screen = Fin 3, focus_exercise = Fin 25, focus_rating = Fin 8\<rparr>"

text \<open>
  The nearest multiple of \<open>2^-p\<close>, the larger one on a tie; and with it the rounding to
  the nearest double of the values from 1 up to 16. The other values are returned as they
  are: in the examples they are whole numbers.
\<close>

definition round_to :: "nat \<Rightarrow> real \<Rightarrow> real" where
  "round_to p x = of_int \<lfloor>x * 2 ^ p + 1 / 2\<rfloor> / 2 ^ p"

definition example_fl :: "real \<Rightarrow> real" where
  "example_fl x =
     (if 1 \<le> x \<and> x < 2 then round_to 52 x
      else if 2 \<le> x \<and> x < 4 then round_to 51 x
      else if 4 \<le> x \<and> x < 8 then round_to 50 x
      else if 8 \<le> x \<and> x < 16 then round_to 49 x
      else x)"

text \<open>Forty entries with eight hours of sleep whose ratings add up to 41.\<close>

definition example_focus_log40 :: "focus_entry list" where
  "example_focus_log40 =
     replicate 39 (example_focus\<lparr>f_rating := Fin 1\<rparr>) @ [example_focus\<lparr>f_rating := Fin 2\<rparr>]"

definition example_focus_log :: "focus_entry list" where
  "example_focus_log =
     [example_focus, example_focus\<lparr>f_rating := Fin 7\<rparr>, example_focus,
      example_focus\<lparr>f_sleep := Fin 5, f_screen := Fin 6, f_exercise := Fin 10,
                    f_rating := Fin 4\<rparr>]"

definition mood_log :: "string list \<Rightarrow> mood_entry list" where
  "mood_log ms = map (\<lambda>m. \<lparr>m_date = ''2024-03-04'', m_mood = m, m_triggers = []\<rparr>) ms"


text \<open>
  A weekday function for the examples: 4 March 2024 is a Monday (1) and 10 March 2024 a
  Sunday (0); every other string stands for a date that does not parse.
\<close>

definition example_getDay :: "string \<Rightarrow> nat option" where
  "example_getDay s =
     (if s = ''2024-03-04'' then Some 1 else if s = ''2024-03-10'' then Some 0 else None)"

definition example_mood_log :: "mood_entry list" where
  "example_mood_log =
     [\<lparr>m_date = ''2024-03-04'', m_mood = ''happy'', m_triggers = []\<rparr>,
      \<lparr>m_date = ''someday'', m_mood = ''happy'', m_triggers = []\<rparr>,
      \<lparr>m_date = ''2024-03-10'', m_mood = ''tired'', m_triggers = [''exams'']\<rparr>,
      \<lparr>m_date = ''2024-03-04'', m_mood = ''bored'', m_triggers = []\<rparr>]"

section \<open>Reading the store\<close>

lemma lp_cases:
  "lp ls key =
     (case ls key of
        None \<Rightarrow> Inr (Arr [])
      | Some (Invalid s) \<Rightarrow> Inr (Arr [])
      | Some (Json d) \<Rightarrow> Inr d)"
  by (simp add: lp_def try_catch_def split: option.splits stored.splits)

lemma lp_lsSet_same: "lp (lsSet key d ls) key = Inr (json_value d)"
  by (simp add: lp_cases lsSet_def JSON_stringify_def)

lemma map_json_entry_finite: "list_all entry_finite xs \<Longrightarrow> map json_entry xs = xs"
  by (induction xs) (simp_all add: json_entry_def)

lemma json_value_finite: "list_all entry_finite xs \<Longrightarrow> json_value (Arr xs) = Arr xs"
  by (simp add: map_json_entry_finite)

lemma lp_lsSet_other: "k \<noteq> key \<Longrightarrow> lp (lsSet key d ls) k = lp ls k"
  by (simp add: lp_cases lsSet_def)

text \<open>
  C6. For every key, \<open>lp\<close> returns the empty array when nothing is stored under the key or
  when the stored string is not JSON text, and it returns a value, never an exception,
  whatever the store holds.
\<close>

theorem lp_empty_on_missing_or_corrupt:
  "(ls key = None \<longrightarrow> lp ls key = Inr (Arr []))
   \<and> (ls key = Some (Invalid s) \<longrightarrow> lp ls key = Inr (Arr []))
   \<and> (\<exists>d. lp ls key = Inr d)"
  by (simp add: lp_cases split: option.splits stored.splits)

theorem lp_empty_on_missing_or_corrupt_witness:
  "Map.empty LS_KEYS_FOCUS = None
   \<and> lp Map.empty LS_KEYS_FOCUS = Inr (Arr [])
   \<and> [LS_KEYS_SKIN \<mapsto> Invalid ''[{broken'', LS_KEYS_MOOD \<mapsto> Invalid ''''] LS_KEYS_SKIN
       = Some (Invalid ''[{broken'')
   \<and> lp [LS_KEYS_SKIN \<mapsto> Invalid ''[{broken'', LS_KEYS_MOOD \<mapsto> Invalid ''''] LS_KEYS_SKIN
       = Inr (Arr [])"
  using lp_empty_on_missing_or_corrupt [of Map.empty LS_KEYS_FOCUS "''''"]
    lp_empty_on_missing_or_corrupt
      [of "[LS_KEYS_SKIN \<mapsto> Invalid ''[{broken'', LS_KEYS_MOOD \<mapsto> Invalid '''']"
          LS_KEYS_SKIN "''[{broken''"]
  by (simp add: LS_KEYS_SKIN_def LS_KEYS_MOOD_def)

section \<open>Appending to a log\<close>

lemma append_entry_Arr:
  "lp ls key = Inr (Arr old) \<Longrightarrow> append_entry key x ls = Inr (lsSet key (Arr (old @ [x])) ls)"
  by (simp add: append_entry_def)

lemma append_entry_NonArr:
  "lp ls key = Inr NonArr \<Longrightarrow> append_entry key x ls = Inl TypeError"
  by (simp add: append_entry_def)

section \<open>Validation\<close>

lemma range_check:
  "(isNaN v \<or> js_lt v (Fin lo) \<or> js_gt v (Fin hi)) = (\<not> in_bounds lo hi v)"
  by (cases v) (auto simp: js_gt_def in_bounds_def)

lemma check_fst: "fst (check c i m st) = (\<not> c \<and> fst st)"
  by (simp add: check_def)

lemma showError_ls: "localStorage (showError i m p) = localStorage p"
  by (simp add: showError_def split: option.splits)

lemma showError_tc:
  "textContent (showError i m p) j =
     (if j = i \<and> textContent p i \<noteq> None then Some m else textContent p j)"
  by (auto simp add: showError_def split: option.splits)

lemma check_ls: "localStorage (snd (check c i m st)) = localStorage (snd st)"
  by (simp add: check_def showError_ls)

lemma check_tc:
  "textContent (snd (check c i m st)) j =
     (if j = i \<and> textContent (snd st) i \<noteq> None then Some (if c then m else [])
      else textContent (snd st) j)"
  by (auto simp add: check_def showError_tc)

lemma shows_text_check_range:
  "shows_text (snd (check (\<not> v) i m st)) i (expected_text v m)"
  by (simp add: shows_text_def expected_text_def check_tc split: option.splits)

lemma shows_text_check_empty:
  "shows_text (snd (check (s = []) i m st)) i (expected_text (s \<noteq> []) m)"
  by (simp add: shows_text_def expected_text_def check_tc split: option.splits)

lemma shows_text_check_other:
  "i \<noteq> j \<Longrightarrow> shows_text (snd (check c i m st)) j t = shows_text (snd st) j t"
  by (simp add: shows_text_def check_tc)

lemma shows_text_ls:
  "shows_text (p\<lparr>localStorage := ls\<rparr>) i t = shows_text p i t"
  by (simp add: shows_text_def)

lemma focus_fields:
  "shows_text (snd (onFocusSubmit today form p)) ''focus-sleep-error''
      (expected_text (in_bounds 0 24 (focus_sleep form)) ''Enter 0-24'')
   \<and> shows_text (snd (onFocusSubmit today form p)) ''focus-screen-error''
      (expected_text (in_bounds 0 24 (focus_screen form)) ''Enter 0-24'')
   \<and> shows_text (snd (onFocusSubmit today form p)) ''focus-exercise-error''
      (expected_text (in_bounds 0 600 (focus_exercise form)) ''Enter 0-600'')
   \<and> shows_text (snd (onFocusSubmit today form p)) ''focus-rating-error''
      (expected_text (in_bounds 1 10 (focus_rating form)) ''Enter 1-10'')"
  unfolding onFocusSubmit_def Let_def range_check
  by (simp add: shows_text_ls shows_text_check_other shows_text_check_range split: sum.splits)

lemma skin_fields:
  "shows_text (snd (onSkinSubmit today form p)) ''skin-sleep-error''
      (expected_text (in_bounds 0 24 (skin_sleep form)) ''Enter 0-24'')
   \<and> shows_text (snd (onSkinSubmit today form p)) ''skin-water-error''
      (expected_text (in_bounds 0 50 (skin_water form)) ''Enter 0-50'')
   \<and> shows_text (snd (onSkinSubmit today form p)) ''skin-stress-error''
      (expected_text (in_bounds 1 10 (skin_stress form)) ''Enter 1-10'')
   \<and> shows_text (snd (onSkinSubmit today form p)) ''skin-condition-error''
      (expected_text (skin_condition form \<noteq> []) ''Select a condition'')"
  unfolding onSkinSubmit_def Let_def range_check
  by (simp add: shows_text_ls shows_text_check_other shows_text_check_range
      shows_text_check_empty split: sum.splits)

lemma mood_fields:
  "shows_text (snd (onMoodSubmit form p)) ''mood-date-error''
      (expected_text (mood_date form \<noteq> []) ''Select a date'')
   \<and> shows_text (snd (onMoodSubmit form p)) ''mood-value-error''
      (expected_text (mood_value form \<noteq> []) ''Select a mood'')"
  unfolding onMoodSubmit_def Let_def
  by (simp add: shows_text_ls shows_text_check_other shows_text_check_empty split: sum.splits)

lemma onFocusSubmit_rejected:
  assumes "\<not> (in_bounds 0 24 (focus_sleep form) \<and> in_bounds 0 24 (focus_screen form)
             \<and> in_bounds 0 600 (focus_exercise form) \<and> in_bounds 1 10 (focus_rating form))"
  shows "fst (onFocusSubmit today form p) = Normal
         \<and> localStorage (snd (onFocusSubmit today form p)) = localStorage p"
  using assms unfolding onFocusSubmit_def Let_def range_check
  by (auto simp add: check_fst check_ls)

lemma onSkinSubmit_rejected:
  assumes "\<not> (in_bounds 0 24 (skin_sleep form) \<and> in_bounds 0 50 (skin_water form)
             \<and> in_bounds 1 10 (skin_stress form) \<and> skin_condition form \<noteq> [])"
  shows "fst (onSkinSubmit today form p) = Normal
         \<and> localStorage (snd (onSkinSubmit today form p)) = localStorage p"
  using assms unfolding onSkinSubmit_def Let_def range_check
  by (auto simp add: check_fst check_ls)

lemma onMoodSubmit_rejected:
  assumes "\<not> (mood_date form \<noteq> [] \<and> mood_value form \<noteq> [])"
  shows "fst (onMoodSubmit form p) = Normal
         \<and> localStorage (snd (onMoodSubmit form p)) = localStorage p"
  using assms unfolding onMoodSubmit_def Let_def
  by (auto simp add: check_fst check_ls)

lemma onFocusSubmit_accepted:
  assumes "in_bounds 0 24 (focus_sleep form)" "in_bounds 0 24 (focus_screen form)"
    "in_bounds 0 600 (focus_exercise form)" "in_bounds 1 10 (focus_rating form)"
  shows "localStorage (snd (onFocusSubmit today form p)) =
           (case append_entry LS_KEYS_FOCUS
                   (Focus \<lparr>f_date = today, f_sleep = focus_sleep form,
                           f_screen = focus_screen form,
                           f_exercise = focus_exercise form,
                           f_rating = focus_rating form\<rparr>) (localStorage p) of
              Inl e \<Rightarrow> localStorage p | Inr ls \<Rightarrow> ls)"
  using assms unfolding onFocusSubmit_def Let_def range_check
  by (simp add: check_fst check_ls split: sum.splits)

lemma onSkinSubmit_accepted:
  assumes "in_bounds 0 24 (skin_sleep form)" "in_bounds 0 50 (skin_water form)"
    "in_bounds 1 10 (skin_stress form)" "skin_condition form \<noteq> []"
  shows "localStorage (snd (onSkinSubmit today form p)) =
           (case append_entry LS_KEYS_SKIN
                   (Skin \<lparr>s_date = today, s_sleep = skin_sleep form,
                          s_water = skin_water form, s_stress = skin_stress form,
                          s_condition = skin_condition form\<rparr>) (localStorage p) of
              Inl e \<Rightarrow> localStorage p | Inr ls \<Rightarrow> ls)"
  using assms unfolding onSkinSubmit_def Let_def range_check
  by (simp add: check_fst check_ls split: sum.splits)

lemma onMoodSubmit_accepted:
  assumes "mood_date form \<noteq> []" "mood_value form \<noteq> []"
  shows "localStorage (snd (onMoodSubmit form p)) =
           (case append_entry LS_KEYS_MOOD
                   (Mood \<lparr>m_date = mood_date form, m_mood = mood_value form,
                          m_triggers = mood_triggers form\<rparr>) (localStorage p) of
              Inl e \<Rightarrow> localStorage p | Inr ls \<Rightarrow> ls)"
  using assms unfolding onMoodSubmit_def Let_def
  by (simp add: check_fst check_ls split: sum.splits)

section \<open>Append, then read\<close>

text \<open>
  C2. For every key, every store in which the key's log reads as an array of entries with
  finite numbers, and every entry with finite numbers (as every admitted entry has),
  appending the entry succeeds, and reading the log back gives an array one longer, whose
  last element is the appended entry and whose elements before it are the prior log in
  its order.
\<close>

theorem append_then_readAll:
  assumes "lp ls key = Inr (Arr old)" and "list_all entry_finite old" and "entry_finite x"
  shows "\<exists>ls' new. append_entry key x ls = Inr ls'
           \<and> lp ls' key = Inr (Arr new)
           \<and> length new = length old + 1
           \<and> last new = x
           \<and> butlast new = old"
  using assms
  by (simp add: append_entry_Arr lp_lsSet_same map_json_entry_finite json_entry_def)

theorem append_then_readAll_witness:
  "lp [LS_KEYS_SKIN \<mapsto> Json (Arr [Skin example_skin])] LS_KEYS_SKIN
     = Inr (Arr [Skin example_skin])
   \<and> list_all entry_finite [Skin example_skin]
   \<and> entry_finite (Skin (example_skin\<lparr>s_condition := ''clear''\<rparr>))
   \<and> (\<exists>ls' new.
         append_entry LS_KEYS_SKIN (Skin (example_skin\<lparr>s_condition := ''clear''\<rparr>))
           [LS_KEYS_SKIN \<mapsto> Json (Arr [Skin example_skin])] = Inr ls'
         \<and> lp ls' LS_KEYS_SKIN = Inr (Arr new)
         \<and> length new = 2
         \<and> last new = Skin (example_skin\<lparr>s_condition := ''clear''\<rparr>)
         \<and> butlast new = [Skin example_skin])"
proof -
  have h: "lp [LS_KEYS_SKIN \<mapsto> Json (Arr [Skin example_skin])] LS_KEYS_SKIN
             = Inr (Arr [Skin example_skin])"
    by (simp add: lp_cases)
  have f: "list_all entry_finite [Skin example_skin]"
    and g: "entry_finite (Skin (example_skin\<lparr>s_condition := ''clear''\<rparr>))"
    by (simp_all add: example_skin_def)
  show ?thesis
    using h f g append_then_readAll [OF h f g]
    by (simp add: numeral_2_eq_2)
qed

section \<open>Export and replay\<close>

lemma keys_distinct:
  "LS_KEYS_FOCUS \<noteq> LS_KEYS_SKIN" "LS_KEYS_FOCUS \<noteq> LS_KEYS_MOOD" "LS_KEYS_SKIN \<noteq> LS_KEYS_MOOD"
  "LS_KEYS_SKIN \<noteq> LS_KEYS_FOCUS" "LS_KEYS_MOOD \<noteq> LS_KEYS_FOCUS" "LS_KEYS_MOOD \<noteq> LS_KEYS_SKIN"
  by (simp_all add: LS_KEYS_FOCUS_def LS_KEYS_SKIN_def LS_KEYS_MOOD_def)

lemma append_entry_other:
  "append_entry key x ls = Inr ls' \<Longrightarrow> k \<noteq> key \<Longrightarrow> lp ls' k = lp ls k"
  by (auto simp add: append_entry_def lp_lsSet_other split: sum.splits)

lemma replay_from:
  "lp ls key = Inr (Arr old) \<Longrightarrow> list_all entry_finite (old @ xs) \<Longrightarrow>
     \<exists>ls'. replay key xs ls = Inr ls' \<and> lp ls' key = Inr (Arr (old @ xs))
           \<and> (\<forall>k. k \<noteq> key \<longrightarrow> lp ls' k = lp ls k)"
proof (induction xs arbitrary: ls old)
  case Nil
  then show ?case by simp
next
  case (Cons x xs)
  let ?ls1 = "lsSet key (Arr (old @ [x])) ls"
  have a: "append_entry key x ls = Inr ?ls1"
    using Cons.prems(1) by (rule append_entry_Arr)
  have "list_all entry_finite (old @ [x])"
    using Cons.prems(2) by simp
  then have r: "lp ?ls1 key = Inr (Arr (old @ [x]))"
    by (simp only: lp_lsSet_same json_value_finite)
  have f: "list_all entry_finite ((old @ [x]) @ xs)"
    using Cons.prems(2) by simp
  obtain ls' where s: "replay key xs ?ls1 = Inr ls'"
    and t: "lp ls' key = Inr (Arr ((old @ [x]) @ xs))"
    and u: "\<forall>k. k \<noteq> key \<longrightarrow> lp ls' k = lp ?ls1 k"
    using Cons.IH [OF r f] by blast
  have "replay key (x # xs) ls = Inr ls'"
    using a s by simp
  moreover have "lp ls' key = Inr (Arr (old @ x # xs))"
    using t by simp
  moreover have "\<forall>k. k \<noteq> key \<longrightarrow> lp ls' k = lp ls k"
    using u by (simp add: lp_lsSet_other)
  ultimately show ?case by blast
qed

lemma lp_empty: "lp Map.empty key = Inr (Arr [])"
  by (simp add: lp_cases)

text \<open>
  C8. For every store whose export holds three arrays of entries with finite numbers (as
  every store of admitted entries does), feeding the focus, skin and mood arrays of the
  export back through repeated appends, starting from the empty store, succeeds and gives
  a store whose three logs read as the original logs, and whose export is the original
  export.
\<close>

theorem export_replay_round_trip:
  assumes "exportData ls = Inr snap"
    and "focus snap = Arr fs" and "skin snap = Arr ss" and "mood snap = Arr ms"
    and "list_all entry_finite fs" and "list_all entry_finite ss"
    and "list_all entry_finite ms"
  shows "\<exists>ls1 ls2 ls3.
           replay LS_KEYS_FOCUS fs Map.empty = Inr ls1
           \<and> replay LS_KEYS_SKIN ss ls1 = Inr ls2
           \<and> replay LS_KEYS_MOOD ms ls2 = Inr ls3
           \<and> lp ls3 LS_KEYS_FOCUS = lp ls LS_KEYS_FOCUS
           \<and> lp ls3 LS_KEYS_SKIN = lp ls LS_KEYS_SKIN
           \<and> lp ls3 LS_KEYS_MOOD = lp ls LS_KEYS_MOOD
           \<and> exportData ls3 = Inr snap"
proof -
  have f: "lp ls LS_KEYS_FOCUS = Inr (Arr fs)" and s: "lp ls LS_KEYS_SKIN = Inr (Arr ss)"
    and m: "lp ls LS_KEYS_MOOD = Inr (Arr ms)"
    using assms(1-4) by (auto simp add: exportData_def split: sum.splits)
  obtain ls1 where r1: "replay LS_KEYS_FOCUS fs Map.empty = Inr ls1"
    and f1: "lp ls1 LS_KEYS_FOCUS = Inr (Arr fs)"
    and o1: "\<forall>k. k \<noteq> LS_KEYS_FOCUS \<longrightarrow> lp ls1 k = lp Map.empty k"
    using replay_from [OF lp_empty, of fs LS_KEYS_FOCUS] assms(5) by auto
  have "lp ls1 LS_KEYS_SKIN = Inr (Arr [])"
    using o1 keys_distinct by (simp add: lp_empty)
  then obtain ls2 where r2: "replay LS_KEYS_SKIN ss ls1 = Inr ls2"
    and s2: "lp ls2 LS_KEYS_SKIN = Inr (Arr ss)"
    and o2: "\<forall>k. k \<noteq> LS_KEYS_SKIN \<longrightarrow> lp ls2 k = lp ls1 k"
    using replay_from [of ls1 LS_KEYS_SKIN "[]" ss] assms(6) by auto
  have "lp ls2 LS_KEYS_MOOD = Inr (Arr [])"
    using o1 o2 keys_distinct by (simp add: lp_empty)
  then obtain ls3 where r3: "replay LS_KEYS_MOOD ms ls2 = Inr ls3"
    and m3: "lp ls3 LS_KEYS_MOOD = Inr (Arr ms)"
    and o3: "\<forall>k. k \<noteq> LS_KEYS_MOOD \<longrightarrow> lp ls3 k = lp ls2 k"
    using replay_from [of ls2 LS_KEYS_MOOD "[]" ms] assms(7) by auto
  have f3: "lp ls3 LS_KEYS_FOCUS = Inr (Arr fs)"
    using o3 o2 f1 keys_distinct by simp
  have s3: "lp ls3 LS_KEYS_SKIN = Inr (Arr ss)"
    using o3 s2 keys_distinct by simp
  have "exportData ls3 = exportData ls"
    by (simp add: exportData_def f3 s3 m3 f s m)
  then show ?thesis
    using r1 r2 r3 f3 s3 m3 f s m assms(1) by simp
qed

lemma example_export:
  "exportData example_store =
     Inr \<lparr>focus = Arr [Focus example_focus], skin = Arr [],
          mood = Arr [Mood example_mood, Mood example_mood]\<rparr>"
  by (simp add: exportData_def example_store_def lp_cases keys_distinct)

theorem export_replay_round_trip_witness:
  "exportData example_store =
     Inr \<lparr>focus = Arr [Focus example_focus], skin = Arr [],
          mood = Arr [Mood example_mood, Mood example_mood]\<rparr>
   \<and> list_all entry_finite [Focus example_focus]
   \<and> list_all entry_finite [Mood example_mood, Mood example_mood]
   \<and> (\<exists>ls1 ls2 ls3.
         replay LS_KEYS_FOCUS [Focus example_focus] Map.empty = Inr ls1
         \<and> replay LS_KEYS_SKIN [] ls1 = Inr ls2
         \<and> replay LS_KEYS_MOOD [Mood example_mood, Mood example_mood] ls2 = Inr ls3
         \<and> lp ls3 LS_KEYS_FOCUS = Inr (Arr [Focus example_focus])
         \<and> lp ls3 LS_KEYS_SKIN = Inr (Arr [])
         \<and> lp ls3 LS_KEYS_MOOD = Inr (Arr [Mood example_mood, Mood example_mood]))"
proof -
  have l: "lp example_store LS_KEYS_FOCUS = Inr (Arr [Focus example_focus])"
    "lp example_store LS_KEYS_SKIN = Inr (Arr [])"
    "lp example_store LS_KEYS_MOOD = Inr (Arr [Mood example_mood, Mood example_mood])"
    by (simp_all add: example_store_def lp_cases keys_distinct)
  have f: "list_all entry_finite [Focus example_focus]"
    "list_all entry_finite [Mood example_mood, Mood example_mood]"
    by (simp_all add: example_focus_def)
  show ?thesis
    using export_replay_round_trip [OF example_export,
        of "[Focus example_focus]" "[]" "[Mood example_mood, Mood example_mood]"]
      l f example_export
    by (simp del: replay.simps) blast
qed

section \<open>Rejected submissions\<close>

text \<open>
  C3. Each submit handler evaluates every field: whatever the other fields hold, the error
  element of a field shows the field's message when the field is unparseable (NaN) or
  outside its closed interval (for the condition, the date and the mood: when it is
  empty), and the empty string when the field is valid. When at least one field is
  invalid the handler returns without writing to the store.
\<close>

theorem validation_reports_every_field:
  "shows_text (snd (onFocusSubmit today ff p)) ''focus-sleep-error''
      (expected_text (in_bounds 0 24 (focus_sleep ff)) ''Enter 0-24'')
   \<and> shows_text (snd (onFocusSubmit today ff p)) ''focus-screen-error''
      (expected_text (in_bounds 0 24 (focus_screen ff)) ''Enter 0-24'')
   \<and> shows_text (snd (onFocusSubmit today ff p)) ''focus-exercise-error''
      (expected_text (in_bounds 0 600 (focus_exercise ff)) ''Enter 0-600'')
   \<and> shows_text (snd (onFocusSubmit today ff p)) ''focus-rating-error''
      (expected_text (in_bounds 1 10 (focus_rating ff)) ''Enter 1-10'')
   \<and> (\<not> (in_bounds 0 24 (focus_sleep ff) \<and> in_bounds 0 24 (focus_screen ff)
           \<and> in_bounds 0 600 (focus_exercise ff) \<and> in_bounds 1 10 (focus_rating ff))
        \<longrightarrow> fst (onFocusSubmit today ff p) = Normal
            \<and> localStorage (snd (onFocusSubmit today ff p)) = localStorage p)
   \<and> shows_text (snd (onSkinSubmit today sf p)) ''skin-sleep-error''
      (expected_text (in_bounds 0 24 (skin_sleep sf)) ''Enter 0-24'')
   \<and> shows_text (snd (onSkinSubmit today sf p)) ''skin-water-error''
      (expected_text (in_bounds 0 50 (skin_water sf)) ''Enter 0-50'')
   \<and> shows_text (snd (onSkinSubmit today sf p)) ''skin-stress-error''
      (expected_text (in_bounds 1 10 (skin_stress sf)) ''Enter 1-10'')
   \<and> shows_text (snd (onSkinSubmit today sf p)) ''skin-condition-error''
      (expected_text (skin_condition sf \<noteq> []) ''Select a condition'')
   \<and> (\<not> (in_bounds 0 24 (skin_sleep sf) \<and> in_bounds 0 50 (skin_water sf)
           \<and> in_bounds 1 10 (skin_stress sf) \<and> skin_condition sf \<noteq> [])
        \<longrightarrow> fst (onSkinSubmit today sf p) = Normal
            \<and> localStorage (snd (onSkinSubmit today sf p)) = localStorage p)
   \<and> shows_text (snd (onMoodSubmit mf p)) ''mood-date-error''
      (expected_text (mood_date mf \<noteq> []) ''Select a date'')
   \<and> shows_text (snd (onMoodSubmit mf p)) ''mood-value-error''
      (expected_text (mood_value mf \<noteq> []) ''Select a mood'')
   \<and> (\<not> (mood_date mf \<noteq> [] \<and> mood_value mf \<noteq> [])
        \<longrightarrow> fst (onMoodSubmit mf p) = Normal
            \<and> localStorage (snd (onMoodSubmit mf p)) = localStorage p)"
  using focus_fields [of today ff p] skin_fields [of today sf p] mood_fields [of mf p]
    onFocusSubmit_rejected [of ff today p] onSkinSubmit_rejected [of sf today p]
    onMoodSubmit_rejected [of mf p]
  by blast

lemma bad_focus_texts:
  "textContent (snd (onFocusSubmit ''2024-03-04'' bad_focus_form example_page))
     ''focus-sleep-error'' = Some ''Enter 0-24''"
  "textContent (snd (onFocusSubmit ''2024-03-04'' bad_focus_form example_page))
     ''focus-screen-error'' = Some ''Enter 0-24''"
  "textContent (snd (onFocusSubmit ''2024-03-04'' bad_focus_form example_page))
     ''focus-exercise-error'' = Some []"
  "textContent (snd (onFocusSubmit ''2024-03-04'' bad_focus_form example_page))
     ''focus-rating-error'' = Some []"
  by (simp_all add: onFocusSubmit_def check_tc check_fst bad_focus_form_def example_page_def
      js_gt_def)

lemma bad_skin_texts:
  "textContent (snd (onSkinSubmit ''2024-03-04'' bad_skin_form example_page))
     ''skin-sleep-error'' = Some []"
  "textContent (snd (onSkinSubmit ''2024-03-04'' bad_skin_form example_page))
     ''skin-water-error'' = Some ''Enter 0-50''"
  "textContent (snd (onSkinSubmit ''2024-03-04'' bad_skin_form example_page))
     ''skin-stress-error'' = Some ''Enter 1-10''"
  "textContent (snd (onSkinSubmit ''2024-03-04'' bad_skin_form example_page))
     ''skin-condition-error'' = Some ''Select a condition''"
  by (simp_all add: onSkinSubmit_def check_tc check_fst bad_skin_form_def example_page_def
      js_gt_def)

lemma bad_mood_texts:
  "textContent (snd (onMoodSubmit bad_mood_form example_page)) ''mood-date-error''
     = Some ''Select a date''"
  "textContent (snd (onMoodSubmit bad_mood_form example_page)) ''mood-value-error''
     = Some []"
  by (simp_all add: onMoodSubmit_def check_tc check_fst bad_mood_form_def example_page_def)

lemma bad_form_fields:
  "focus_sleep bad_focus_form = NaN" "focus_screen bad_focus_form = Fin 30"
  "focus_exercise bad_focus_form = Fin 20" "focus_rating bad_focus_form = Fin 5"
  "skin_sleep bad_skin_form = Fin 8" "skin_water bad_skin_form = Fin 60"
  "skin_stress bad_skin_form = Fin 0" "skin_condition bad_skin_form = []"
  "mood_date bad_mood_form = []" "mood_value bad_mood_form = ''happy''"
  by (simp_all add: bad_focus_form_def bad_skin_form_def bad_mood_form_def)

theorem validation_reports_every_field_witness:
  "\<not> in_bounds 0 24 (focus_sleep bad_focus_form)
   \<and> \<not> in_bounds 0 24 (focus_screen bad_focus_form)
   \<and> in_bounds 0 600 (focus_exercise bad_focus_form)
   \<and> in_bounds 1 10 (focus_rating bad_focus_form)
   \<and> fst (onFocusSubmit ''2024-03-04'' bad_focus_form example_page) = Normal
   \<and> localStorage (snd (onFocusSubmit ''2024-03-04'' bad_focus_form example_page))
       = localStorage example_page
   \<and> shows_text (snd (onFocusSubmit ''2024-03-04'' bad_focus_form example_page))
         ''focus-sleep-error'' ''Enter 0-24''
   \<and> shows_text (snd (onFocusSubmit ''2024-03-04'' bad_focus_form example_page))
         ''focus-screen-error'' ''Enter 0-24''
   \<and> shows_text (snd (onFocusSubmit ''2024-03-04'' bad_focus_form example_page))
         ''focus-exercise-error'' []
   \<and> shows_text (snd (onFocusSubmit ''2024-03-04'' bad_focus_form example_page))
         ''focus-rating-error'' []
   \<and> textContent (snd (onFocusSubmit ''2024-03-04'' bad_focus_form example_page))
         ''focus-sleep-error'' = Some ''Enter 0-24''
   \<and> in_bounds 0 24 (skin_sleep bad_skin_form)
   \<and> \<not> in_bounds 0 50 (skin_water bad_skin_form)
   \<and> \<not> in_bounds 1 10 (skin_stress bad_skin_form)
   \<and> skin_condition bad_skin_form = []
   \<and> fst (onSkinSubmit ''2024-03-04'' bad_skin_form example_page) = Normal
   \<and> localStorage (snd (onSkinSubmit ''2024-03-04'' bad_skin_form example_page))
       = localStorage example_page
   \<and> shows_text (snd (onSkinSubmit ''2024-03-04'' bad_skin_form example_page))
         ''skin-sleep-error'' []
   \<and> shows_text (snd (onSkinSubmit ''2024-03-04'' bad_skin_form example_page))
         ''skin-water-error'' ''Enter 0-50''
   \<and> shows_text (snd (onSkinSubmit ''2024-03-04'' bad_skin_form example_page))
         ''skin-stress-error'' ''Enter 1-10''
   \<and> shows_text (snd (onSkinSubmit ''2024-03-04'' bad_skin_form example_page))
         ''skin-condition-error'' ''Select a condition''
   \<and> textContent (snd (onSkinSubmit ''2024-03-04'' bad_skin_form example_page))
         ''skin-water-error'' = Some ''Enter 0-50''
   \<and> mood_date bad_mood_form = []
   \<and> fst (onMoodSubmit bad_mood_form example_page) = Normal
   \<and> localStorage (snd (onMoodSubmit bad_mood_form example_page)) = localStorage example_page
   \<and> shows_text (snd (onMoodSubmit bad_mood_form example_page))
         ''mood-date-error'' ''Select a date''
   \<and> shows_text (snd (onMoodSubmit bad_mood_form example_page)) ''mood-value-error'' []
   \<and> textContent (snd (onMoodSubmit bad_mood_form example_page)) ''mood-date-error''
       = Some ''Select a date''"
  using validation_reports_every_field
    [of "''2024-03-04''" bad_focus_form example_page bad_skin_form bad_mood_form]
  by (simp add: bad_focus_texts bad_skin_texts bad_mood_texts in_bounds_def
      bad_form_fields expected_text_def)

section \<open>The store invariant\<close>

lemma log_ok_append_same:
  assumes "log_ok P ls key" and "P x" and fin: "\<And>e. P e \<Longrightarrow> entry_finite e"
  shows "\<exists>ls'. append_entry key x ls = Inr ls' \<and> log_ok P ls' key"
proof -
  obtain old where o: "lp ls key = Inr (Arr old)" and a: "list_all P old"
    using assms(1) by (auto simp add: log_ok_def split: sum.splits jsdata.splits)
  have "list_all entry_finite (old @ [x])"
    using a assms(2) fin by (simp add: list_all_iff)
  then have "map json_entry (old @ [x]) = old @ [x]"
    by (rule map_json_entry_finite)
  then have "log_ok P (lsSet key (Arr (old @ [x])) ls) key"
    using a assms(2) by (simp add: log_ok_def lp_lsSet_same del: map_append)
  then show ?thesis
    using append_entry_Arr [OF o] by simp
qed

lemma log_ok_append_other:
  "append_entry key x ls = Inr ls' \<Longrightarrow> k \<noteq> key \<Longrightarrow> log_ok Q ls' k = log_ok Q ls k"
  by (simp add: log_ok_def append_entry_other)

lemma log_ok_remove_same: "log_ok P (removeItem key ls) key"
  by (simp add: log_ok_def removeItem_def lp_cases)

lemma log_ok_remove_other: "k \<noteq> key \<Longrightarrow> log_ok P (removeItem key ls) k = log_ok P ls k"
  by (simp add: log_ok_def removeItem_def lp_cases)

lemma log_ok_empty: "log_ok P Map.empty key"
  by (simp add: log_ok_def lp_cases)

lemma in_bounds_finite: "in_bounds lo hi v \<Longrightarrow> finite_num v"
  by (cases v) (simp_all add: in_bounds_def)

lemma admitted_finite:
  "is_focus focus_bounds e \<Longrightarrow> entry_finite e"
  "is_skin skin_admitted e \<Longrightarrow> entry_finite e"
  "is_mood mood_admitted e \<Longrightarrow> entry_finite e"
proof -
  show "is_focus focus_bounds e \<Longrightarrow> entry_finite e"
    by (cases e) (simp_all add: focus_bounds_def in_bounds_finite [of 0 24]
        in_bounds_finite [of 0 600] in_bounds_finite [of 1 10])
  show "is_skin skin_admitted e \<Longrightarrow> entry_finite e"
    by (cases e) (simp_all add: skin_admitted_def skin_numeric_bounds_def
        in_bounds_finite [of 0 24] in_bounds_finite [of 0 50] in_bounds_finite [of 1 10])
  show "is_mood mood_admitted e \<Longrightarrow> entry_finite e"
    by (cases e) simp_all
qed

lemma log_ok_finite:
  assumes "log_ok P ls key" and fin: "\<And>e. P e \<Longrightarrow> entry_finite e"
  shows "\<exists>es. lp ls key = Inr (Arr es) \<and> list_all entry_finite es"
proof -
  obtain es where "lp ls key = Inr (Arr es)" and "list_all P es"
    using assms(1) by (auto simp add: log_ok_def split: sum.splits jsdata.splits)
  then show ?thesis
    using fin by (auto simp add: list_all_iff)
qed

text \<open>
  A store of admitted entries exports three arrays of entries with finite numbers: the
  stores that the statements about appending and replaying are about.
\<close>

lemma store_admitted_export:
  assumes "store_admitted ls"
  shows "\<exists>fs ss ms. exportData ls = Inr \<lparr>focus = Arr fs, skin = Arr ss, mood = Arr ms\<rparr>
           \<and> list_all entry_finite fs \<and> list_all entry_finite ss \<and> list_all entry_finite ms"
proof -
  obtain fs where f: "lp ls LS_KEYS_FOCUS = Inr (Arr fs)" "list_all entry_finite fs"
    using assms log_ok_finite [of "is_focus focus_bounds" ls LS_KEYS_FOCUS] admitted_finite(1)
    by (auto simp add: store_admitted_def)
  obtain ss where s: "lp ls LS_KEYS_SKIN = Inr (Arr ss)" "list_all entry_finite ss"
    using assms log_ok_finite [of "is_skin skin_admitted" ls LS_KEYS_SKIN] admitted_finite(2)
    by (auto simp add: store_admitted_def)
  obtain ms where m: "lp ls LS_KEYS_MOOD = Inr (Arr ms)" "list_all entry_finite ms"
    using assms log_ok_finite [of "is_mood mood_admitted" ls LS_KEYS_MOOD] admitted_finite(3)
    by (auto simp add: store_admitted_def)
  show ?thesis
    using f s m by (simp add: exportData_def)
qed

lemma parseInt_in_bounds: "parseInt_result v \<Longrightarrow> in_bounds lo hi v \<Longrightarrow> is_integer v"
  by (cases v) (simp_all add: parseInt_result_def in_bounds_def is_integer_def)

lemma focus_submit_admitted:
  assumes s: "store_admitted (localStorage p)" and i: "parseInt_result (focus_rating form)"
  shows "store_admitted (localStorage (snd (onFocusSubmit today form p)))"
proof (cases "in_bounds 0 24 (focus_sleep form) \<and> in_bounds 0 24 (focus_screen form)
             \<and> in_bounds 0 600 (focus_exercise form) \<and> in_bounds 1 10 (focus_rating form)")
  case False
  then show ?thesis
    using onFocusSubmit_rejected [of form today p] s by simp
next
  case True
  let ?e = "\<lparr>f_date = today, f_sleep = focus_sleep form, f_screen = focus_screen form,
             f_exercise = focus_exercise form, f_rating = focus_rating form\<rparr>"
  have "is_focus focus_bounds (Focus ?e)"
    using True parseInt_in_bounds [OF i, of 1 10] by (simp add: focus_bounds_def)
  moreover have "log_ok (is_focus focus_bounds) (localStorage p) LS_KEYS_FOCUS"
    using s by (simp add: store_admitted_def)
  ultimately obtain ls' where a: "append_entry LS_KEYS_FOCUS (Focus ?e) (localStorage p) = Inr ls'"
    and l: "log_ok (is_focus focus_bounds) ls' LS_KEYS_FOCUS"
    using log_ok_append_same [of "is_focus focus_bounds"] admitted_finite(1) by blast
  have "localStorage (snd (onFocusSubmit today form p)) = ls'"
    using True a by (simp add: onFocusSubmit_accepted)
  then show ?thesis
    using s l log_ok_append_other [OF a] keys_distinct by (simp add: store_admitted_def)
qed

lemma skin_submit_admitted:
  assumes s: "store_admitted (localStorage p)" and i: "parseInt_result (skin_stress form)"
  shows "store_admitted (localStorage (snd (onSkinSubmit today form p)))"
proof (cases "in_bounds 0 24 (skin_sleep form) \<and> in_bounds 0 50 (skin_water form)
             \<and> in_bounds 1 10 (skin_stress form) \<and> skin_condition form \<noteq> []")
  case False
  then show ?thesis
    using onSkinSubmit_rejected [of form today p] s by simp
next
  case True
  let ?e = "\<lparr>s_date = today, s_sleep = skin_sleep form, s_water = skin_water form,
             s_stress = skin_stress form, s_condition = skin_condition form\<rparr>"
  have "is_skin skin_admitted (Skin ?e)"
    using True parseInt_in_bounds [OF i, of 1 10]
    by (simp add: skin_admitted_def skin_numeric_bounds_def)
  moreover have "log_ok (is_skin skin_admitted) (localStorage p) LS_KEYS_SKIN"
    using s by (simp add: store_admitted_def)
  ultimately obtain ls' where a: "append_entry LS_KEYS_SKIN (Skin ?e) (localStorage p) = Inr ls'"
    and l: "log_ok (is_skin skin_admitted) ls' LS_KEYS_SKIN"
    using log_ok_append_same [of "is_skin skin_admitted"] admitted_finite(2) by blast
  have "localStorage (snd (onSkinSubmit today form p)) = ls'"
    using True a by (simp add: onSkinSubmit_accepted)
  then show ?thesis
    using s l log_ok_append_other [OF a] keys_distinct by (simp add: store_admitted_def)
qed

lemma mood_submit_admitted:
  assumes s: "store_admitted (localStorage p)"
  shows "store_admitted (localStorage (snd (onMoodSubmit form p)))"
proof (cases "mood_date form \<noteq> [] \<and> mood_value form \<noteq> []")
  case False
  then show ?thesis
    using onMoodSubmit_rejected [of form p] s by simp
next
  case True
  let ?e = "\<lparr>m_date = mood_date form, m_mood = mood_value form,
             m_triggers = mood_triggers form\<rparr>"
  have "is_mood mood_admitted (Mood ?e)"
    using True by (simp add: mood_admitted_def)
  moreover have "log_ok (is_mood mood_admitted) (localStorage p) LS_KEYS_MOOD"
    using s by (simp add: store_admitted_def)
  ultimately obtain ls' where a: "append_entry LS_KEYS_MOOD (Mood ?e) (localStorage p) = Inr ls'"
    and l: "log_ok (is_mood mood_admitted) ls' LS_KEYS_MOOD"
    using log_ok_append_same [of "is_mood mood_admitted"] admitted_finite(3) by blast
  have "localStorage (snd (onMoodSubmit form p)) = ls'"
    using True a by (simp add: onMoodSubmit_accepted)
  then show ?thesis
    using s l log_ok_append_other [OF a] keys_distinct by (simp add: store_admitted_def)
qed

lemma clear_admitted:
  assumes "store_admitted (localStorage p)"
  shows "store_admitted (localStorage (clearFocusData c p))"
    and "store_admitted (localStorage (clearSkinData c p))"
    and "store_admitted (localStorage (clearMoodData c p))"
  using assms keys_distinct
  by (simp_all add: store_admitted_def clearFocusData_def clearSkinData_def clearMoodData_def
      log_ok_remove_same log_ok_remove_other)

text \<open>
  C1, as amended. In every page reachable from the empty store, each log reads as an array
  of entries of its category, and every entry satisfies what its handler checks: a focus
  entry has sleep and screen in [0,24], exercise in [0,600] and a whole rating in [1,10];
  a skin entry has sleep in [0,24], water in [0,50], a whole stress level in [1,10] and a
  condition that is not empty; a mood entry has a date and a mood that are not empty.
\<close>

theorem reachable_store_admitted:
  "reachable p \<Longrightarrow> store_admitted (localStorage p)"
proof (induction rule: reachable.induct)
  case (start t)
  then show ?case by (simp add: store_admitted_def log_ok_empty)
next
  case (focus_submit p form today)
  then show ?case by (simp add: focus_submit_admitted)
next
  case (skin_submit p form today)
  then show ?case by (simp add: skin_submit_admitted)
next
  case (mood_submit p form)
  then show ?case by (simp add: mood_submit_admitted)
next
  case (focus_clear p confirmed)
  then show ?case by (simp add: clear_admitted)
next
  case (skin_clear p confirmed)
  then show ?case by (simp add: clear_admitted)
next
  case (mood_clear p confirmed)
  then show ?case by (simp add: clear_admitted)
qed

lemma reachable_example_page: "reachable example_page"
  unfolding example_page_def by (rule reachable.start)

lemma good_focus_stored:
  "localStorage (snd (onFocusSubmit ''2024-03-04'' good_focus_form example_page))
     = [LS_KEYS_FOCUS \<mapsto> Json (Arr [Focus example_focus])]"
  by (simp add: onFocusSubmit_accepted good_focus_form_def in_bounds_def example_page_def
      append_entry_def lp_cases lsSet_def JSON_stringify_def json_entry_def example_focus_def)

theorem reachable_store_admitted_witness:
  "reachable (snd (onFocusSubmit ''2024-03-04'' good_focus_form example_page))
   \<and> store_admitted (localStorage (snd (onFocusSubmit ''2024-03-04'' good_focus_form example_page)))
   \<and> lp (localStorage (snd (onFocusSubmit ''2024-03-04'' good_focus_form example_page)))
        LS_KEYS_FOCUS = Inr (Arr [Focus example_focus])
   \<and> focus_bounds example_focus"
proof -
  have r: "reachable (snd (onFocusSubmit ''2024-03-04'' good_focus_form example_page))"
    by (rule reachable.focus_submit [OF reachable_example_page])
      (simp add: parseInt_result_def good_focus_form_def)
  have "focus_bounds example_focus"
    by (simp add: focus_bounds_def example_focus_def in_bounds_def is_integer_def)
  then show ?thesis
    using r reachable_store_admitted [OF r] by (simp add: good_focus_stored lp_cases)
qed

lemma oily_skin_stored:
  "localStorage (snd (onSkinSubmit ''2024-03-04'' oily_skin_form example_page))
     = [LS_KEYS_SKIN \<mapsto> Json (Arr [Skin \<lparr>s_date = ''2024-03-04'', s_sleep = Fin 7,
          s_water = Fin 6, s_stress = Fin 4, s_condition = ''oily''\<rparr>])]"
  by (simp add: onSkinSubmit_accepted oily_skin_form_def in_bounds_def example_page_def
      append_entry_def lp_cases lsSet_def JSON_stringify_def json_entry_def)

text \<open>
  C1 as stated fails: the skin handler admits any condition that is not the empty string.
  Submitting the condition \<open>oily\<close> with valid numbers stores an entry whose condition is
  none of clear, dry and irritated.
\<close>

theorem oily_condition_admitted:
  "reachable (snd (onSkinSubmit ''2024-03-04'' oily_skin_form example_page))
   \<and> lp (localStorage (snd (onSkinSubmit ''2024-03-04'' oily_skin_form example_page)))
        LS_KEYS_SKIN
       = Inr (Arr [Skin \<lparr>s_date = ''2024-03-04'', s_sleep = Fin 7, s_water = Fin 6,
                          s_stress = Fin 4, s_condition = ''oily''\<rparr>])
   \<and> \<not> skin_bounds \<lparr>s_date = ''2024-03-04'', s_sleep = Fin 7, s_water = Fin 6,
                       s_stress = Fin 4, s_condition = ''oily''\<rparr>
   \<and> \<not> store_within_bounds
         (localStorage (snd (onSkinSubmit ''2024-03-04'' oily_skin_form example_page)))"
proof -
  have r: "reachable (snd (onSkinSubmit ''2024-03-04'' oily_skin_form example_page))"
    by (rule reachable.skin_submit [OF reachable_example_page])
      (simp add: parseInt_result_def oily_skin_form_def)
  then show ?thesis
    by (simp add: oily_skin_stored lp_cases skin_bounds_def store_within_bounds_def log_ok_def)
qed

section \<open>The sleep buckets\<close>

lemma bucket_add_bounds:
  "b_min (bucket_add fl e b) = b_min b" "b_max (bucket_add fl e b) = b_max b"
  "b_label (bucket_add fl e b) = b_label b"
  by (simp_all add: bucket_add_def)

lemma in_bucket_bucket_add: "in_bucket e' (bucket_add fl e b) = in_bucket e' b"
  by (simp add: in_bucket_def bucket_add_bounds)

lemma foldl_map_buckets:
  "foldl (\<lambda>bs e. map (bucket_add fl e) bs) bs es
     = map (\<lambda>b. foldl (\<lambda>b e. bucket_add fl e b) b es) bs"
  by (induction es arbitrary: bs) (simp_all add: comp_def)

lemma sleep_buckets_map:
  "sleep_buckets fl es = map (\<lambda>b. foldl (\<lambda>b e. bucket_add fl e b) b es) buckets"
  by (simp add: sleep_buckets_def foldl_map_buckets)

lemma fold_bucket_n:
  "b_n (foldl (\<lambda>b e. bucket_add fl e b) b es)
     = b_n b + length (filter (\<lambda>e. in_bucket e b) es)"
proof (induction es arbitrary: b)
  case Nil
  then show ?case by simp
next
  case (Cons e es)
  have "b_n (bucket_add fl e b) = b_n b + (if in_bucket e b then 1 else 0)"
    by (simp add: bucket_add_def)
  then show ?case
    using Cons.IH [of "bucket_add fl e b"] by (simp add: in_bucket_bucket_add)
qed

lemma fold_bucket_sum:
  "b_sum (foldl (\<lambda>b e. bucket_add fl e b) b es)
     = foldl (js_add fl) (b_sum b) (map f_rating (filter (\<lambda>e. in_bucket e b) es))"
proof (induction es arbitrary: b)
  case Nil
  then show ?case by simp
next
  case (Cons e es)
  have "b_sum (bucket_add fl e b)
      = (if in_bucket e b then js_add fl (b_sum b) (f_rating e) else b_sum b)"
    by (simp add: bucket_add_def)
  then show ?case
    using Cons.IH [of "bucket_add fl e b"] by (simp add: in_bucket_bucket_add)
qed

lemma length_buckets: "length buckets = 4"
  by (simp add: buckets_def)

lemma length_sleep_buckets: "length (sleep_buckets fl es) = 4"
  by (simp add: sleep_buckets_map length_buckets)

lemma sleep_buckets_nth:
  "i < 4 \<Longrightarrow> sleep_buckets fl es ! i = foldl (\<lambda>b e. bucket_add fl e b) (buckets ! i) es"
  by (simp add: sleep_buckets_map length_buckets)

lemma buckets_nth_init:
  "i < 4 \<Longrightarrow> b_n (buckets ! i) = 0 \<and> b_sum (buckets ! i) = Fin 0"
proof -
  assume "i < 4"
  then have "i = 0 \<or> i = 1 \<or> i = 2 \<or> i = 3" by arith
  then show ?thesis by (auto simp add: buckets_def)
qed

lemma sleep_buckets_n:
  "i < 4 \<Longrightarrow> b_n (sleep_buckets fl es ! i) = length (bucket_members i es)"
  by (simp add: sleep_buckets_nth fold_bucket_n buckets_nth_init bucket_members_def)

lemma sleep_buckets_sum:
  "i < 4 \<Longrightarrow> b_sum (sleep_buckets fl es ! i)
     = foldl (js_add fl) (Fin 0) (map f_rating (bucket_members i es))"
  by (simp add: sleep_buckets_nth fold_bucket_sum buckets_nth_init bucket_members_def)

lemma single_bucket_counts:
  "map b_n (sleep_buckets fl [e]) = map (\<lambda>b. if in_bucket e b then 1 else 0) buckets"
  by (simp add: sleep_buckets_def bucket_add_def buckets_def)

lemma sleep_buckets_counts:
  "map b_n (sleep_buckets fl es)
     = map (\<lambda>b. length (filter (\<lambda>e. in_bucket e b) es)) buckets"
  by (simp add: sleep_buckets_map fold_bucket_n buckets_def)

text \<open>
  C4. In the sleep-bucket aggregation every entry is counted on its own: appending an entry
  adds to the counts of the buckets what the entry alone gives. An entry with sleep exactly
  6 is counted in the first bucket only, one with exactly 7 in the second only, one with
  exactly 9 in the third only; and an entry with sleep \<open>s\<close> in [0,24] is counted in exactly
  one bucket: the first for \<open>s \<le> 6\<close>, the second for \<open>6 < s \<le> 7\<close>, the third for
  \<open>7 < s \<le> 9\<close>, the fourth for \<open>9 < s\<close>. The counts do not depend on how sums are rounded.
\<close>

theorem sleep_bucket_boundaries:
  "map b_n (sleep_buckets fl (es @ [e]))
     = map2 (+) (map b_n (sleep_buckets fl es)) (map b_n (sleep_buckets fl [e]))
   \<and> (f_sleep e = Fin 6 \<longrightarrow> map b_n (sleep_buckets fl [e]) = [1, 0, 0, 0])
   \<and> (f_sleep e = Fin 7 \<longrightarrow> map b_n (sleep_buckets fl [e]) = [0, 1, 0, 0])
   \<and> (f_sleep e = Fin 9 \<longrightarrow> map b_n (sleep_buckets fl [e]) = [0, 0, 1, 0])
   \<and> (\<forall>s. f_sleep e = Fin s \<and> 0 \<le> s \<and> s \<le> 24 \<longrightarrow>
         map b_n (sleep_buckets fl [e])
           = [if s \<le> 6 then 1 else 0, if 6 < s \<and> s \<le> 7 then 1 else 0,
              if 7 < s \<and> s \<le> 9 then 1 else 0, if 9 < s then 1 else 0]
         \<and> sum_list (map b_n (sleep_buckets fl [e])) = 1)"
proof -
  have "map b_n (sleep_buckets fl (es @ [e]))
     = map2 (+) (map b_n (sleep_buckets fl es)) (map b_n (sleep_buckets fl [e]))"
    by (simp add: sleep_buckets_counts buckets_def)
  moreover have "\<forall>s. f_sleep e = Fin s \<and> 0 \<le> s \<and> s \<le> 24 \<longrightarrow>
         map b_n (sleep_buckets fl [e])
           = [if s \<le> 6 then 1 else 0, if 6 < s \<and> s \<le> 7 then 1 else 0,
              if 7 < s \<and> s \<le> 9 then 1 else 0, if 9 < s then 1 else 0]
         \<and> sum_list (map b_n (sleep_buckets fl [e])) = 1"
    by (auto simp add: single_bucket_counts buckets_def in_bucket_def js_gt_def js_le_def)
  moreover have "f_sleep e = Fin 6 \<longrightarrow> map b_n (sleep_buckets fl [e]) = [1, 0, 0, 0]"
    and "f_sleep e = Fin 7 \<longrightarrow> map b_n (sleep_buckets fl [e]) = [0, 1, 0, 0]"
    and "f_sleep e = Fin 9 \<longrightarrow> map b_n (sleep_buckets fl [e]) = [0, 0, 1, 0]"
    by (simp_all add: single_bucket_counts buckets_def in_bucket_def js_gt_def js_le_def)
  ultimately show ?thesis by blast
qed

lemma example_log_counts: "map b_n (sleep_buckets fl example_focus_log) = [1, 0, 3, 0]"
  by (simp add: sleep_buckets_counts buckets_def in_bucket_def js_gt_def js_le_def
      example_focus_log_def example_focus_def)

theorem sleep_bucket_boundaries_witness:
  "map b_n (sleep_buckets example_fl [example_focus\<lparr>f_sleep := Fin 6\<rparr>]) = [1, 0, 0, 0]
   \<and> map b_n (sleep_buckets example_fl
                 (example_focus_log @ [example_focus\<lparr>f_sleep := Fin 6\<rparr>]))
       = [2, 0, 3, 0]
   \<and> map b_n (sleep_buckets example_fl [example_focus\<lparr>f_sleep := Fin 7\<rparr>]) = [0, 1, 0, 0]
   \<and> map b_n (sleep_buckets example_fl
                 (example_focus_log @ [example_focus\<lparr>f_sleep := Fin 7\<rparr>]))
       = [1, 1, 3, 0]
   \<and> map b_n (sleep_buckets example_fl [example_focus\<lparr>f_sleep := Fin 9\<rparr>]) = [0, 0, 1, 0]
   \<and> (0::real) \<le> 24 \<and> (24::real) \<le> 24
   \<and> map b_n (sleep_buckets example_fl [example_focus\<lparr>f_sleep := Fin 24\<rparr>]) = [0, 0, 0, 1]
   \<and> sum_list (map b_n (sleep_buckets example_fl [example_focus\<lparr>f_sleep := Fin 24\<rparr>])) = 1"
  using
    sleep_bucket_boundaries
      [of example_fl example_focus_log "example_focus\<lparr>f_sleep := Fin 6\<rparr>"]
    sleep_bucket_boundaries
      [of example_fl example_focus_log "example_focus\<lparr>f_sleep := Fin 7\<rparr>"]
    sleep_bucket_boundaries
      [of example_fl example_focus_log "example_focus\<lparr>f_sleep := Fin 9\<rparr>"]
    sleep_bucket_boundaries
      [of example_fl example_focus_log "example_focus\<lparr>f_sleep := Fin 24\<rparr>"]
  by (simp add: example_log_counts)


subsection \<open>Sums of whole ratings are exact\<close>

lemma double_rounding_int:
  "double_rounding fl \<Longrightarrow> \<bar>k\<bar> \<le> 2 ^ 53 \<Longrightarrow> fl (of_int k) = of_int k"
  by (simp add: double_rounding_def)

lemma double_rounding_err:
  "double_rounding fl \<Longrightarrow> 1 \<le> x \<Longrightarrow> x < 16 \<Longrightarrow> \<bar>fl x - x\<bar> \<le> x / 2 ^ 53"
  by (simp add: double_rounding_def)

lemma whole_rating:
  assumes "in_bounds 1 10 v" and "is_integer v"
  shows "v = Fin (of_int \<lfloor>fin_val v\<rfloor>) \<and> 1 \<le> \<lfloor>fin_val v\<rfloor> \<and> \<lfloor>fin_val v\<rfloor> \<le> 10"
proof (cases v)
  case (Fin r)
  then have "of_int \<lfloor>r\<rfloor> = r" and "1 \<le> r" and "r \<le> 10"
    using assms by (simp_all add: in_bounds_def is_integer_def)
  then show ?thesis
    using Fin by (auto simp add: le_floor_iff floor_le_iff)
qed (use assms in \<open>simp_all add: in_bounds_def\<close>)

lemma foldl_js_add_whole:
  assumes "double_rounding fl"
    and "list_all (\<lambda>v. in_bounds 1 10 v \<and> is_integer v) vs"
    and "0 \<le> a" and "a + 10 * int (length vs) \<le> 2 ^ 53"
  shows "foldl (js_add fl) (Fin (of_int a)) vs = Fin (of_int (a + (\<Sum>v\<leftarrow>vs. \<lfloor>fin_val v\<rfloor>)))"
  using assms(2-4)
proof (induction vs arbitrary: a)
  case Nil
  then show ?case by simp
next
  case (Cons v vs)
  define j where "j = \<lfloor>fin_val v\<rfloor>"
  have v: "v = Fin (of_int j)" and j: "1 \<le> j" "j \<le> 10"
    using Cons.prems(1) whole_rating [of v] by (simp_all add: j_def)
  have "\<bar>a + j\<bar> \<le> 2 ^ 53"
    using Cons.prems(2,3) j by simp
  then have "fl (of_int (a + j)) = of_int (a + j)"
    using assms(1) by (rule double_rounding_int [rotated])
  then have s: "js_add fl (Fin (of_int a)) v = Fin (of_int (a + j))"
    by (simp add: v)
  have "foldl (js_add fl) (Fin (of_int (a + j))) vs
      = Fin (of_int ((a + j) + (\<Sum>v\<leftarrow>vs. \<lfloor>fin_val v\<rfloor>)))"
    using Cons.prems j by (intro Cons.IH) simp_all
  then show ?case
    using s by (simp add: j_def add.assoc)
qed

lemma whole_sum:
  assumes "list_all (\<lambda>v. in_bounds 1 10 v \<and> is_integer v) vs"
  shows "(\<Sum>v\<leftarrow>vs. fin_val v) = of_int (\<Sum>v\<leftarrow>vs. \<lfloor>fin_val v\<rfloor>)
    \<and> int (length vs) \<le> (\<Sum>v\<leftarrow>vs. \<lfloor>fin_val v\<rfloor>)
    \<and> (\<Sum>v\<leftarrow>vs. \<lfloor>fin_val v\<rfloor>) \<le> 10 * int (length vs)"
  using assms
proof (induction vs)
  case Nil
  then show ?case by simp
next
  case (Cons v vs)
  have "v = Fin (of_int \<lfloor>fin_val v\<rfloor>)" and "1 \<le> \<lfloor>fin_val v\<rfloor>" and "\<lfloor>fin_val v\<rfloor> \<le> 10"
    using Cons.prems whole_rating [of v] by simp_all
  moreover from this have "fin_val v = of_int \<lfloor>fin_val v\<rfloor>"
    by (metis fin_val.simps(1))
  ultimately show ?case
    using Cons by simp
qed

subsection \<open>The decimal of a rounded quotient\<close>

lemma nearest_hundredth:
  fixes S :: int and n :: nat and q :: real
  assumes n: "0 < n" "n < 2 ^ 32"
    and q: "\<bar>q - of_int S / real n\<bar> \<le> 10 / 2 ^ 53"
  shows "\<bar>of_int \<lfloor>q * 100 + 1 / 2\<rfloor> / 100 - of_int S / real n\<bar> \<le> 1 / 200"
proof -
  define k where "k = \<lfloor>q * 100 + 1 / 2\<rfloor>"
  define m where "m = real_of_int S / real n"
  have lo: "real_of_int k \<le> q * 100 + 1 / 2" and up: "q * 100 + 1 / 2 < real_of_int k + 1"
    unfolding k_def by linarith+
  have qm: "q \<le> m + 10 / 2 ^ 53" "m - 10 / 2 ^ 53 \<le> q"
    using q unfolding m_def by linarith+
  have rn: "0 < real n"
    using n(1) by simp
  have "real n < 2 ^ 32"
    using n(2) by (metis of_nat_less_iff of_nat_numeral of_nat_power)
  then have small: "2000 * real n < 2 ^ 53"
    by simp
  have mS: "m * real n = real_of_int S"
    using rn by (simp add: m_def)
  have A: "(2 * k - 1) * int n \<le> 200 * S"
  proof (rule ccontr)
    assume "\<not> (2 * k - 1) * int n \<le> 200 * S"
    then have "200 * S + 1 \<le> (2 * k - 1) * int n"
      by simp
    then have "real_of_int (200 * S + 1) \<le> real_of_int ((2 * k - 1) * int n)"
      by (rule of_int_le_iff [THEN iffD2])
    then have "200 * (m * real n) + 1 \<le> (2 * real_of_int k - 1) * real n"
      by (simp add: mS)
    moreover have "2 * real_of_int k - 1 \<le> 200 * m + 2000 / 2 ^ 53"
      using lo qm(1) by linarith
    then have "(2 * real_of_int k - 1) * real n \<le> (200 * m + 2000 / 2 ^ 53) * real n"
      using rn by (simp add: mult_right_mono)
    ultimately have "1 \<le> (2000 / 2 ^ 53) * real n"
      by (simp add: algebra_simps)
    then show False
      using small by simp
  qed
  have B: "200 * S \<le> (2 * k + 1) * int n"
  proof (rule ccontr)
    assume "\<not> 200 * S \<le> (2 * k + 1) * int n"
    then have "(2 * k + 1) * int n + 1 \<le> 200 * S"
      by simp
    then have "real_of_int ((2 * k + 1) * int n + 1) \<le> real_of_int (200 * S)"
      by (rule of_int_le_iff [THEN iffD2])
    then have "(2 * real_of_int k + 1) * real n + 1 \<le> 200 * (m * real n)"
      by (simp add: mS)
    moreover have "200 * m - 2000 / 2 ^ 53 \<le> 2 * real_of_int k + 1"
      using up qm(2) by linarith
    then have "(200 * m - 2000 / 2 ^ 53) * real n \<le> (2 * real_of_int k + 1) * real n"
      using rn by (simp add: mult_right_mono)
    ultimately have "1 \<le> (2000 / 2 ^ 53) * real n"
      by (simp add: algebra_simps)
    then show False
      using small by simp
  qed
  have "real_of_int ((2 * k - 1) * int n) \<le> real_of_int (200 * S)"
    using A by (rule of_int_le_iff [THEN iffD2])
  then have "(2 * real_of_int k - 1) * real n \<le> 200 * m * real n"
    by (simp add: mS mult.assoc)
  then have a: "2 * real_of_int k - 1 \<le> 200 * m"
    using rn by (simp only: mult_le_cancel_right_pos)
  have "real_of_int (200 * S) \<le> real_of_int ((2 * k + 1) * int n)"
    using B by (rule of_int_le_iff [THEN iffD2])
  then have "200 * m * real n \<le> (2 * real_of_int k + 1) * real n"
    by (simp add: mS mult.assoc)
  then have b: "200 * m \<le> 2 * real_of_int k + 1"
    using rn by (simp only: mult_le_cancel_right_pos)
  have "real_of_int k / 100 - m \<le> 1 / 200" and "- (real_of_int k / 100 - m) \<le> 1 / 200"
    using a b by linarith+
  then have "\<bar>real_of_int k / 100 - m\<bar> \<le> 1 / 200"
    by (rule abs_leI)
  then show ?thesis
    by (simp only: k_def m_def)
qed

subsection \<open>The chart series\<close>

lemma members_whole:
  assumes "whole_ratings es"
  shows "list_all (\<lambda>v. in_bounds 1 10 v \<and> is_integer v) (map f_rating (bucket_members i es))"
  using assms by (auto simp add: whole_ratings_def list_all_iff bucket_members_def)

lemma length_members: "length (bucket_members i es) \<le> length es"
  by (simp add: bucket_members_def)

lemma members_sum_whole:
  assumes "double_rounding fl" and "whole_ratings es" and "length es < 2 ^ 32"
  shows "foldl (js_add fl) (Fin 0) (map f_rating (bucket_members i es))
           = Fin (of_int (\<Sum>v\<leftarrow>map f_rating (bucket_members i es). \<lfloor>fin_val v\<rfloor>))"
proof -
  let ?vs = "map f_rating (bucket_members i es)"
  have "length ?vs < 2 ^ 32"
    using length_members [of i es] assms(3) by simp
  then have "int (length ?vs) < 2 ^ 32"
    by (metis of_nat_less_iff of_nat_numeral of_nat_power)
  then have "0 + 10 * int (length ?vs) \<le> 2 ^ 53"
    by simp
  then have "foldl (js_add fl) (Fin (of_int 0)) ?vs
      = Fin (of_int (0 + (\<Sum>v\<leftarrow>?vs. \<lfloor>fin_val v\<rfloor>)))"
    using assms(1) members_whole [OF assms(2)] by (intro foldl_js_add_whole) simp_all
  then show ?thesis by simp
qed

lemma members_mean_whole:
  assumes "whole_ratings es" and "bucket_members i es \<noteq> []"
  shows "mean_rating (bucket_members i es)
           = of_int (\<Sum>v\<leftarrow>map f_rating (bucket_members i es). \<lfloor>fin_val v\<rfloor>)
               / real (length (bucket_members i es))"
    and "1 \<le> mean_rating (bucket_members i es)"
    and "mean_rating (bucket_members i es) \<le> 10"
proof -
  let ?ms = "bucket_members i es"
  let ?S = "\<Sum>v\<leftarrow>map f_rating ?ms. \<lfloor>fin_val v\<rfloor>"
  have w: "(\<Sum>v\<leftarrow>map f_rating ?ms. fin_val v) = of_int ?S"
    "int (length (map f_rating ?ms)) \<le> ?S" "?S \<le> 10 * int (length (map f_rating ?ms))"
    using whole_sum [OF members_whole [OF assms(1)], of i] by blast+
  have "(\<Sum>e\<leftarrow>?ms. fin_val (f_rating e)) = (\<Sum>v\<leftarrow>map f_rating ?ms. fin_val v)"
    by (simp add: comp_def)
  then show m: "mean_rating ?ms = of_int ?S / real (length ?ms)"
    using w(1) by (simp only: mean_rating_def)
  have n: "0 < real (length ?ms)"
    using assms(2) by simp
  have "real (length ?ms) \<le> real_of_int ?S" and "real_of_int ?S \<le> 10 * real (length ?ms)"
    using w(2,3) by (simp_all add: of_int_le_iff [symmetric] del: of_int_le_iff)
  then show "1 \<le> mean_rating ?ms" and "mean_rating ?ms \<le> 10"
    using n by (simp_all add: m field_simps)
qed

text \<open>
  C9. For every rounding \<open>fl\<close> that behaves as the nearest double does, and every list of
  fewer than \<open>2 ^ 32\<close> focus entries whose ratings are whole numbers in [1,10], the chart
  series has four values. The value of a bucket with no member is 0. The value of a bucket
  with members is a finite number, never NaN: the division is evaluated only there, and the
  value is the double of \<open>toFixed(2)\<close> of the double quotient of the rating sum by the member
  count. That decimal is a whole number of hundredths within half a hundredth of the exact
  mean rating of the members, so it is the mean rounded to two decimal places. When the exact
  mean lies halfway between two hundredths the double quotient decides which one is taken.
\<close>

theorem summarySleep_data_guarded:
  assumes "double_rounding fl" and "whole_ratings es" and "length es < 2 ^ 32" and "i < 4"
  shows "length (summarySleep_data fl es) = 4
    \<and> (bucket_members i es = [] \<longrightarrow> summarySleep_data fl es ! i = Fin 0)
    \<and> (bucket_members i es \<noteq> [] \<longrightarrow>
         summarySleep_data fl es ! i
           = Fin (fl (toFixed2 (fl (mean_rating (bucket_members i es)))))
         \<and> (\<exists>k::int.
               toFixed2 (fl (mean_rating (bucket_members i es))) = of_int k / 100
               \<and> \<bar>of_int k / 100 - mean_rating (bucket_members i es)\<bar> \<le> 1 / 200
               \<and> \<bar>fl (of_int k / 100) - of_int k / 100\<bar> \<le> of_int k / 100 / 2 ^ 53))"
proof -
  let ?ms = "bucket_members i es"
  let ?b = "sleep_buckets fl es ! i"
  let ?S = "\<Sum>v\<leftarrow>map f_rating ?ms. \<lfloor>fin_val v\<rfloor>"
  let ?m = "mean_rating ?ms"
  have len: "length (summarySleep_data fl es) = 4"
    by (simp add: summarySleep_data_def length_sleep_buckets)
  have n: "b_n ?b = length ?ms"
    using assms(4) by (rule sleep_buckets_n)
  have s: "b_sum ?b = Fin (of_int ?S)"
    using assms by (simp add: sleep_buckets_sum members_sum_whole)
  have d: "summarySleep_data fl es ! i =
      (if b_n ?b \<noteq> 0 then plus_toFixed2 fl (js_div fl (b_sum ?b) (Fin (real (b_n ?b))))
       else Fin 0)"
    using assms(4) by (simp add: summarySleep_data_def length_sleep_buckets)
  have empty: "?ms = [] \<longrightarrow> summarySleep_data fl es ! i = Fin 0"
    using d n by simp
  have full: "summarySleep_data fl es ! i = Fin (fl (toFixed2 (fl ?m)))
         \<and> (\<exists>k::int. toFixed2 (fl ?m) = of_int k / 100
               \<and> \<bar>of_int k / 100 - ?m\<bar> \<le> 1 / 200
               \<and> \<bar>fl (of_int k / 100) - of_int k / 100\<bar> \<le> of_int k / 100 / 2 ^ 53)"
    if ne: "?ms \<noteq> []"
  proof -
    have m: "?m = of_int ?S / real (length ?ms)" and m1: "1 \<le> ?m" and m10: "?m \<le> 10"
      using members_mean_whole [OF assms(2) ne] by blast+
    have pos: "0 < length ?ms"
      using ne by simp
    have small: "length ?ms < 2 ^ 32"
      using length_members [of i es] assms(3) by simp
    have "\<bar>fl ?m - ?m\<bar> \<le> ?m / 2 ^ 53"
      using assms(1) m1 m10 by (intro double_rounding_err) simp_all
    moreover have "?m / 2 ^ 53 \<le> 10 / 2 ^ 53"
      using m10 by (simp add: divide_right_mono)
    ultimately have q: "\<bar>fl ?m - ?m\<bar> \<le> 10 / 2 ^ 53"
      by linarith
    have "(10::real) / 2 ^ 53 \<le> 1"
      by simp
    with q have "\<bar>fl ?m - ?m\<bar> \<le> 1"
      by linarith
    then have q0: "0 \<le> fl ?m" and q11: "fl ?m \<le> 11"
      using m1 m10 by linarith+
    then have big: "\<not> 10 ^ 21 \<le> \<bar>fl ?m\<bar>"
      by simp
    define k where "k = \<lfloor>fl ?m * 100 + 1 / 2\<rfloor>"
    have t: "toFixed2 (fl ?m) = of_int k / 100"
      using q0 by (simp add: toFixed2_def k_def)
    have c: "\<bar>of_int k / 100 - ?m\<bar> \<le> 1 / 200"
      using nearest_hundredth [OF pos small, of "fl ?m" ?S] q
      by (simp only: k_def m)
    then have "1 \<le> real_of_int k / 100" and "real_of_int k / 100 < 16"
    proof -
      have "99 < real_of_int k" and "real_of_int k < 1001"
        using c m1 m10 by linarith+
      then have "100 \<le> k" and "k \<le> 1000"
        by linarith+
      then show "1 \<le> real_of_int k / 100" and "real_of_int k / 100 < 16"
        by simp_all
    qed
    then have r: "\<bar>fl (of_int k / 100) - of_int k / 100\<bar> \<le> of_int k / 100 / 2 ^ 53"
      using assms(1) by (intro double_rounding_err)
    have "js_div fl (b_sum ?b) (Fin (real (b_n ?b))) = Fin (fl ?m)"
      using pos by (simp add: s n m)
    then have "summarySleep_data fl es ! i = Fin (fl (toFixed2 (fl ?m)))"
      using d n pos big by simp
    then show ?thesis
      using t c r by blast
  qed
  show ?thesis
    using len empty full by blast
qed

subsection \<open>An example rounding\<close>

lemma round_to_int: "round_to p (of_int k) = of_int k"
proof -
  have "\<lfloor>real_of_int (k * 2 ^ p) + 1 / 2\<rfloor> = k * 2 ^ p"
    by linarith
  then have "\<lfloor>real_of_int k * 2 ^ p + 1 / 2\<rfloor> = k * 2 ^ p"
    by simp
  then show ?thesis
    by (simp add: round_to_def)
qed

lemma round_to_close: "\<bar>round_to p x - x\<bar> \<le> 1 / (2 * 2 ^ p)"
proof -
  define j where "j = \<lfloor>x * 2 ^ p + 1 / 2\<rfloor>"
  define t :: real where "t = 2 ^ p"
  have t: "0 < t"
    by (simp add: t_def)
  have lo: "real_of_int j \<le> x * t + 1 / 2" and up: "x * t + 1 / 2 < real_of_int j + 1"
    unfolding j_def t_def by linarith+
  have "real_of_int j / t \<le> (x * t + 1 / 2) / t"
    using lo t by (simp add: divide_right_mono)
  then have a: "real_of_int j / t - x \<le> 1 / (2 * t)"
    using t by (simp add: add_divide_distrib)
  have "(x * t - 1 / 2) / t \<le> real_of_int j / t"
    using up t by (simp add: divide_right_mono)
  then have b: "- (real_of_int j / t - x) \<le> 1 / (2 * t)"
    using t by (simp add: diff_divide_distrib)
  have "\<bar>real_of_int j / t - x\<bar> \<le> 1 / (2 * t)"
    using a b by (rule abs_leI)
  then show ?thesis
    by (simp only: round_to_def j_def t_def)
qed

lemma example_fl_rounding: "double_rounding example_fl"
proof -
  have "example_fl (of_int k) = of_int k" for k
    by (simp add: example_fl_def round_to_int)
  moreover have "\<bar>example_fl x - x\<bar> \<le> x / 2 ^ 53" if "1 \<le> x" and "x < 16" for x
  proof -
    consider "x < 2" | "2 \<le> x" "x < 4" | "4 \<le> x" "x < 8" | "8 \<le> x"
      by linarith
    then show ?thesis
    proof cases
      case 1
      then show ?thesis
        using that round_to_close [of 52 x] by (simp add: example_fl_def)
    next
      case 2
      then show ?thesis
        using that round_to_close [of 51 x] by (simp add: example_fl_def)
    next
      case 3
      then show ?thesis
        using that round_to_close [of 50 x] by (simp add: example_fl_def)
    next
      case 4
      then show ?thesis
        using that round_to_close [of 49 x] by (simp add: example_fl_def)
    qed
  qed
  ultimately show ?thesis
    by (simp add: double_rounding_def)
qed

text \<open>
  Forty entries in the range (7,9], thirty-nine rated 1 and one rated 2: the exact mean is
  1.025, its double lies below it, and the chart shows 1.02.
\<close>

lemma example_log40_members:
  "bucket_members 2 example_focus_log40 = example_focus_log40"
  "bucket_members 3 example_focus_log40 = []"
  by (simp_all add: bucket_members_def buckets_def in_bucket_def js_gt_def js_le_def
      example_focus_log40_def example_focus_def)

lemma example_log40_facts:
  "whole_ratings example_focus_log40"
  "length example_focus_log40 < 2 ^ 32"
  "example_focus_log40 \<noteq> []"
  "mean_rating example_focus_log40 = 41 / 40"
  by (simp_all add: whole_ratings_def example_focus_log40_def example_focus_def in_bounds_def
      is_integer_def mean_rating_def sum_list_replicate list_all_iff)

lemma example_fl_values:
  "example_fl (41 / 40) = 4616189618054758 / 4503599627370496"
  "toFixed2 (example_fl (41 / 40)) = 102 / 100"
  by (simp_all add: example_fl_def round_to_def toFixed2_def)

theorem summarySleep_data_guarded_witness:
  "double_rounding example_fl
   \<and> whole_ratings example_focus_log40
   \<and> length example_focus_log40 < 2 ^ 32
   \<and> bucket_members 3 example_focus_log40 = []
   \<and> summarySleep_data example_fl example_focus_log40 ! 3 = Fin 0
   \<and> bucket_members 2 example_focus_log40 \<noteq> []
   \<and> mean_rating (bucket_members 2 example_focus_log40) = 41 / 40
   \<and> summarySleep_data example_fl example_focus_log40 ! 2 = Fin (example_fl (102 / 100))
   \<and> toFixed2 (example_fl (41 / 40)) = 102 / 100
   \<and> \<bar>(102::real) / 100 - 41 / 40\<bar> \<le> 1 / 200"
proof -
  note t = summarySleep_data_guarded [OF example_fl_rounding example_log40_facts(1,2)]
  have "summarySleep_data example_fl example_focus_log40 ! 3 = Fin 0"
    using t [of 3] by (simp add: example_log40_members)
  moreover have "summarySleep_data example_fl example_focus_log40 ! 2
      = Fin (example_fl (toFixed2 (example_fl (mean_rating example_focus_log40))))"
    using t [of 2] by (simp add: example_log40_members example_log40_facts(3))
  then have "summarySleep_data example_fl example_focus_log40 ! 2
      = Fin (example_fl (102 / 100))"
    by (simp only: example_log40_facts(4) example_fl_values(2))
  moreover have "toFixed2 (example_fl (41 / 40)) = 102 / 100"
    by (rule example_fl_values(2))
  moreover have "mean_rating (bucket_members 2 example_focus_log40) = 41 / 40"
    by (simp only: example_log40_members example_log40_facts(4))
  moreover have "bucket_members 2 example_focus_log40 \<noteq> []"
    by (simp only: example_log40_members example_log40_facts(3) not_False_eq_True)
  moreover have "\<bar>(102::real) / 100 - 41 / 40\<bar> \<le> 1 / 200"
    by simp
  ultimately show ?thesis
    using example_fl_rounding example_log40_facts(1,2) example_log40_members(2)
    by blast
qed


section \<open>Mood tips\<close>

lemma foldl_moodCounts:
  "or0 (foldl (\<lambda>acc e. acc(m_mood e \<mapsto> or0 (acc (m_mood e)) + 1)) acc es k)
     = or0 (acc k) + mood_count k es"
  by (induction es arbitrary: acc) (simp_all add: mood_count_def)

lemma moodCounts_count: "or0 (moodCounts es k) = mood_count k es"
  using foldl_moodCounts [of Map.empty es k] by (simp add: moodCounts_def)

lemma fires_iff:
  assumes "es \<noteq> []"
  shows "fires Coping es = (mood_count ''stressed'' es > mood_count ''happy'' es)"
    and "fires Tiredness es = (mood_count ''tired'' es > 0)"
    and "fires Reinforcement es =
          (mood_count ''happy'' es
             \<ge> max (mood_count ''calm'' es)
                   (max (mood_count ''stressed'' es) (mood_count ''tired'' es)))"
  using assms by (auto simp add: fires_def updateMoodTips_def Let_def moodCounts_count)

lemma fires_empty: "\<not> fires t []"
  by (simp add: fires_def updateMoodTips_def)

lemma coping_excludes_reinforcement: "\<not> (fires Coping es \<and> fires Reinforcement es)"
proof (cases "es = []")
  case True
  then show ?thesis by (simp add: fires_empty)
next
  case False
  then show ?thesis by (auto simp add: fires_iff)
qed

text \<open>
  C5 as stated fails: no log makes all three tips fire, because the coping tip needs more
  stressed than happy entries and the reinforcement tip needs at least as many happy as
  stressed entries.
\<close>

theorem mood_tips_never_all_three:
  "\<not> (\<exists>es. fires Coping es \<and> fires Tiredness es \<and> fires Reinforcement es)"
  using coping_excludes_reinforcement by blast

lemma ex_tips:
  "updateMoodTips (mood_log [''stressed'', ''tired'']) = MoodTips [Coping, Tiredness]"
  "updateMoodTips (mood_log [''happy'', ''tired'']) = MoodTips [Tiredness, Reinforcement]"
  "updateMoodTips (mood_log [''happy'', ''happy'', ''stressed'', ''tired'', ''tired''])
     = MoodTips [Tiredness, Reinforcement]"
  "updateMoodTips (mood_log [''calm'', ''happy'', ''calm'']) = MoodTips []"
  "updateMoodTips [] = NoMoodData"
  by (simp_all add: updateMoodTips_def mood_log_def moodCounts_def)

text \<open>
  C5, as amended. For a log that is not empty the three checks are evaluated separately,
  each on its own condition: the coping tip fires exactly when there are more stressed than
  happy entries, the tiredness tip exactly when there is a tired entry, the reinforcement
  tip exactly when the happy entries are at least as many as those of each other mood. The
  coping and the reinforcement tip never fire together; the tiredness tip fires together
  with the coping tip for some log, and with the reinforcement tip for some log.
\<close>

theorem mood_tip_checks:
  "(es \<noteq> [] \<longrightarrow>
      (\<exists>tips. updateMoodTips es = MoodTips tips)
      \<and> fires Coping es = (mood_count ''stressed'' es > mood_count ''happy'' es)
      \<and> fires Tiredness es = (mood_count ''tired'' es > 0)
      \<and> fires Reinforcement es =
          (mood_count ''happy'' es
             \<ge> max (mood_count ''calm'' es)
                   (max (mood_count ''stressed'' es) (mood_count ''tired'' es))))
   \<and> \<not> (fires Coping es \<and> fires Reinforcement es)
   \<and> (\<exists>xs. fires Coping xs \<and> fires Tiredness xs)
   \<and> (\<exists>xs. fires Tiredness xs \<and> fires Reinforcement xs)"
proof -
  have "fires Coping (mood_log [''stressed'', ''tired''])
      \<and> fires Tiredness (mood_log [''stressed'', ''tired''])"
    by (simp add: fires_def ex_tips)
  moreover have "fires Tiredness (mood_log [''happy'', ''tired''])
      \<and> fires Reinforcement (mood_log [''happy'', ''tired''])"
    by (simp add: fires_def ex_tips)
  moreover have "es \<noteq> [] \<longrightarrow> (\<exists>tips. updateMoodTips es = MoodTips tips)"
    by (simp add: updateMoodTips_def Let_def)
  ultimately show ?thesis
    using fires_iff [of es] coping_excludes_reinforcement [of es] by blast
qed

lemma ex_counts:
  "mood_log [''happy'', ''happy'', ''stressed'', ''tired'', ''tired''] \<noteq> []"
  "mood_count ''happy'' (mood_log [''happy'', ''happy'', ''stressed'', ''tired'', ''tired'']) = 2"
  "mood_count ''tired'' (mood_log [''happy'', ''happy'', ''stressed'', ''tired'', ''tired'']) = 2"
  "mood_count ''stressed'' (mood_log [''happy'', ''happy'', ''stressed'', ''tired'', ''tired'']) = 1"
  "mood_count ''calm'' (mood_log [''happy'', ''happy'', ''stressed'', ''tired'', ''tired'']) = 0"
  by (simp_all add: mood_count_def mood_log_def)

theorem mood_tip_checks_witness:
  "mood_log [''happy'', ''happy'', ''stressed'', ''tired'', ''tired''] \<noteq> []
   \<and> updateMoodTips (mood_log [''happy'', ''happy'', ''stressed'', ''tired'', ''tired''])
       = MoodTips [Tiredness, Reinforcement]
   \<and> \<not> fires Coping (mood_log [''happy'', ''happy'', ''stressed'', ''tired'', ''tired''])
   \<and> fires Tiredness (mood_log [''happy'', ''happy'', ''stressed'', ''tired'', ''tired''])
   \<and> fires Reinforcement (mood_log [''happy'', ''happy'', ''stressed'', ''tired'', ''tired''])
   \<and> mood_count ''happy'' (mood_log [''happy'', ''happy'', ''stressed'', ''tired'', ''tired'']) = 2
   \<and> mood_count ''tired'' (mood_log [''happy'', ''happy'', ''stressed'', ''tired'', ''tired'']) = 2
   \<and> mood_count ''stressed'' (mood_log [''happy'', ''happy'', ''stressed'', ''tired'', ''tired'']) = 1"
  using mood_tip_checks [of "mood_log [''happy'', ''happy'', ''stressed'', ''tired'', ''tired'']"]
  by (simp add: ex_tips ex_counts)

section \<open>The skin insight\<close>








section \<open>The mood chart\<close>

lemma weekday_below_7: "weekday_of getDay e = Some j \<Longrightarrow> j < 7"
  by (auto simp add: weekday_of_def)

lemma mood_chart_step_four:
  "mood_chart_step getDay
      [(''happy'', r1), (''calm'', r2), (''stressed'', r3), (''tired'', r4)] e =
     Inr [(''happy'', if m_mood e = ''happy'' then bump (weekday_of getDay e) r1 else r1),
          (''calm'', if m_mood e = ''calm'' then bump (weekday_of getDay e) r2 else r2),
          (''stressed'', if m_mood e = ''stressed'' then bump (weekday_of getDay e) r3 else r3),
          (''tired'', if m_mood e = ''tired'' then bump (weekday_of getDay e) r4 else r4)]"
  by (auto simp add: mood_chart_step_def weekday_of_def Let_def)

lemma mood_chart_loop_four:
  "mood_chart_loop getDay
      [(''happy'', r1), (''calm'', r2), (''stressed'', r3), (''tired'', r4)] es =
     Inr [(''happy'', row_after getDay ''happy'' r1 es),
          (''calm'', row_after getDay ''calm'' r2 es),
          (''stressed'', row_after getDay ''stressed'' r3 es),
          (''tired'', row_after getDay ''tired'' r4 es)]"
proof (induction es arbitrary: r1 r2 r3 r4)
  case Nil
  then show ?case by (simp add: row_after_def)
next
  case (Cons e es)
  show ?case
    unfolding mood_chart_loop.simps mood_chart_step_four sum.case Cons.IH
    by (simp add: row_after_def)
qed

lemma length_bump: "length (bump w r) = length r"
  by (cases w) simp_all

lemma length_row_after: "length (row_after getDay m r es) = length r"
  unfolding row_after_def by (induction es arbitrary: r) (simp_all add: length_bump)

lemma nth_bump:
  "j < length r \<Longrightarrow> bump w r ! j = r ! j + (if w = Some j then 1 else 0)"
  by (cases w) (auto simp add: nth_list_update)

lemma nth_row_after:
  "j < length r \<Longrightarrow>
     row_after getDay m r es ! j
       = r ! j + length (filter (\<lambda>e. m_mood e = m \<and> weekday_of getDay e = Some j) es)"
proof (induction es arbitrary: r)
  case Nil
  then show ?case by (simp add: row_after_def)
next
  case (Cons e es)
  let ?r = "if m_mood e = m then bump (weekday_of getDay e) r else r"
  have l: "j < length ?r"
    using Cons.prems by (simp add: length_bump)
  have "row_after getDay m r (e # es) = row_after getDay m ?r es"
    by (simp add: row_after_def)
  then show ?case
    using Cons.IH [OF l] Cons.prems by (simp add: nth_bump)
qed

lemma row_after_tally:
  "row_after getDay m (replicate 7 0) es = weekday_tally getDay m es"
  by (rule nth_equalityI)
    (simp_all add: length_row_after weekday_tally_def nth_row_after del: upt_Suc)

lemma updateMoodCharts_eq:
  "updateMoodCharts getDay es =
     Inr [(''happy'', weekday_tally getDay ''happy'' es),
          (''calm'', weekday_tally getDay ''calm'' es),
          (''stressed'', weekday_tally getDay ''stressed'' es),
          (''tired'', weekday_tally getDay ''tired'' es)]"
  by (simp add: updateMoodCharts_def mood_counts_init_def mood_chart_loop_four row_after_tally)

lemma filter_filter_implied:
  "(\<And>e. P e \<Longrightarrow> Q e) \<Longrightarrow> filter P (filter Q es) = filter P es"
  by (induction es) auto

lemma weekday_tally_valid_dates:
  "weekday_tally getDay m (filter (\<lambda>e. getDay (m_date e) \<noteq> None) es) = weekday_tally getDay m es"
proof -
  have "filter (\<lambda>e. m_mood e = m \<and> weekday_of getDay e = Some j)
          (filter (\<lambda>e. getDay (m_date e) \<noteq> None) es)
      = filter (\<lambda>e. m_mood e = m \<and> weekday_of getDay e = Some j) es" for j
    by (rule filter_filter_implied) (auto simp add: weekday_of_def)
  then show ?thesis
    unfolding weekday_tally_def by simp
qed

lemma weekday_tally_known_moods:
  assumes "m \<in> {''happy'', ''calm'', ''stressed'', ''tired''}"
  shows "weekday_tally getDay m
      (filter (\<lambda>e. m_mood e \<in> {''happy'', ''calm'', ''stressed'', ''tired''}) es)
     = weekday_tally getDay m es"
proof -
  have "filter (\<lambda>e. m_mood e = m \<and> weekday_of getDay e = Some j)
          (filter (\<lambda>e. m_mood e \<in> {''happy'', ''calm'', ''stressed'', ''tired''}) es)
      = filter (\<lambda>e. m_mood e = m \<and> weekday_of getDay e = Some j) es" for j
    by (rule filter_filter_implied) (use assms in blast)
  then show ?thesis
    unfolding weekday_tally_def by simp
qed

text \<open>
  C10. For every mood log and every way dates parse, the loop of \<open>updateMoodCharts\<close> ends
  without an exception and yields the four rows of the specification's histogram: column
  \<open>j\<close> of a mood's row counts the entries with that mood whose date falls on weekday \<open>j\<close>.
  An entry whose date does not parse is in no column: the rows are those of the log without
  such entries, as they are those of the log without the entries of unrecognized moods.
\<close>

theorem mood_histogram_skips_invalid_dates:
  "(\<exists>rows. updateMoodCharts getDay es = Inr rows)
   \<and> updateMoodCharts getDay es =
       Inr [(''happy'', weekday_tally getDay ''happy'' es),
            (''calm'', weekday_tally getDay ''calm'' es),
            (''stressed'', weekday_tally getDay ''stressed'' es),
            (''tired'', weekday_tally getDay ''tired'' es)]
   \<and> updateMoodCharts getDay es
       = updateMoodCharts getDay (filter (\<lambda>e. getDay (m_date e) \<noteq> None) es)
   \<and> updateMoodCharts getDay es
       = updateMoodCharts getDay
           (filter (\<lambda>e. m_mood e \<in> {''happy'', ''calm'', ''stressed'', ''tired''}) es)"
  unfolding updateMoodCharts_eq
  by (simp only: weekday_tally_valid_dates weekday_tally_known_moods insertI1 insertI2) simp

lemma example_rows:
  "updateMoodCharts example_getDay example_mood_log =
     Inr [(''happy'', [1, 0, 0, 0, 0, 0, 0]), (''calm'', [0, 0, 0, 0, 0, 0, 0]),
          (''stressed'', [0, 0, 0, 0, 0, 0, 0]), (''tired'', [0, 0, 0, 0, 0, 0, 1])]"
  by code_simp

theorem mood_histogram_skips_invalid_dates_witness:
  "updateMoodCharts example_getDay example_mood_log =
     Inr [(''happy'', [1, 0, 0, 0, 0, 0, 0]), (''calm'', [0, 0, 0, 0, 0, 0, 0]),
          (''stressed'', [0, 0, 0, 0, 0, 0, 0]), (''tired'', [0, 0, 0, 0, 0, 0, 1])]
   \<and> filter (\<lambda>e. example_getDay (m_date e) \<noteq> None) example_mood_log
       = [\<lparr>m_date = ''2024-03-04'', m_mood = ''happy'', m_triggers = []\<rparr>,
          \<lparr>m_date = ''2024-03-10'', m_mood = ''tired'', m_triggers = [''exams'']\<rparr>,
          \<lparr>m_date = ''2024-03-04'', m_mood = ''bored'', m_triggers = []\<rparr>]
   \<and> updateMoodCharts example_getDay
         [\<lparr>m_date = ''2024-03-04'', m_mood = ''happy'', m_triggers = []\<rparr>,
          \<lparr>m_date = ''2024-03-10'', m_mood = ''tired'', m_triggers = [''exams'']\<rparr>,
          \<lparr>m_date = ''2024-03-04'', m_mood = ''bored'', m_triggers = []\<rparr>]
       = Inr [(''happy'', [1, 0, 0, 0, 0, 0, 0]), (''calm'', [0, 0, 0, 0, 0, 0, 0]),
              (''stressed'', [0, 0, 0, 0, 0, 0, 0]), (''tired'', [0, 0, 0, 0, 0, 0, 1])]
   \<and> weekday_tally example_getDay ''happy'' example_mood_log = [1, 0, 0, 0, 0, 0, 0]"
proof -
  note t = mood_histogram_skips_invalid_dates [of example_getDay example_mood_log]
  have f: "filter (\<lambda>e. example_getDay (m_date e) \<noteq> None) example_mood_log
       = [\<lparr>m_date = ''2024-03-04'', m_mood = ''happy'', m_triggers = []\<rparr>,
          \<lparr>m_date = ''2024-03-10'', m_mood = ''tired'', m_triggers = [''exams'']\<rparr>,
          \<lparr>m_date = ''2024-03-04'', m_mood = ''bored'', m_triggers = []\<rparr>]"
    by (simp add: example_getDay_def example_mood_log_def)
  have a: "updateMoodCharts example_getDay
         [\<lparr>m_date = ''2024-03-04'', m_mood = ''happy'', m_triggers = []\<rparr>,
          \<lparr>m_date = ''2024-03-10'', m_mood = ''tired'', m_triggers = [''exams'']\<rparr>,
          \<lparr>m_date = ''2024-03-04'', m_mood = ''bored'', m_triggers = []\<rparr>]
       = updateMoodCharts example_getDay example_mood_log"
    using t [THEN conjunct2, THEN conjunct2, THEN conjunct1] unfolding f by (rule sym)
  have "Inr [(''happy'', weekday_tally example_getDay ''happy'' example_mood_log),
            (''calm'', weekday_tally example_getDay ''calm'' example_mood_log),
            (''stressed'', weekday_tally example_getDay ''stressed'' example_mood_log),
            (''tired'', weekday_tally example_getDay ''tired'' example_mood_log)]
      = (Inr [(''happy'', [1, 0, 0, 0, 0, 0, 0]), (''calm'', [0, 0, 0, 0, 0, 0, 0]),
          (''stressed'', [0, 0, 0, 0, 0, 0, 0]), (''tired'', [0, 0, 0, 0, 0, 0, 1])]
          :: exn + (string \<times> nat list) list)"
    using t [THEN conjunct2, THEN conjunct1] example_rows by (rule trans [OF sym])
  then have b: "weekday_tally example_getDay ''happy'' example_mood_log = [1, 0, 0, 0, 0, 0, 0]"
    by (simp only: sum.inject list.inject prod.inject)
  show ?thesis
    using example_rows f a b by (simp only: simp_thms)
qed

end
